theory Spec2Isabelle
  imports Complex_Main "HOL-Library.Word"
begin

section \<open>JavaScript values\<close>

text \<open>
  A JavaScript string is a sequence of UTF-16 code units; \<open>js\<close> embeds the ASCII
  literals of \<^verbatim>\<open>script.js\<close>. \<open>text.length\<close> is \<open>length\<close> and \<open>text[i]\<close> is the
  \<open>i\<close>-th code unit, or \<open>undefined\<close> out of range.
\<close>

type_synonym code_unit = "16 word"
type_synonym js_string = "code_unit list"

definition js :: "string \<Rightarrow> js_string" where
  "js cs = map (\<lambda>c. of_nat (of_char c)) cs"

text \<open>
  Numbers. Finite doubles are idealised as reals: rounding, overflow and the sign of
  zero are not modelled. \<open>NaN\<close> and the two infinities are kept, since arithmetic on
  \<open>undefined\<close> and division by zero produce them.
\<close>

datatype js_number = NaN | PosInf | NegInf | Num real

fun js_neg :: "js_number \<Rightarrow> js_number" where
  "js_neg NaN = NaN"
| "js_neg PosInf = NegInf"
| "js_neg NegInf = PosInf"
| "js_neg (Num a) = Num (- a)"

fun js_add :: "js_number \<Rightarrow> js_number \<Rightarrow> js_number" where
  "js_add (Num a) (Num b) = Num (a + b)"
| "js_add NaN _ = NaN"
| "js_add _ NaN = NaN"
| "js_add PosInf NegInf = NaN"
| "js_add NegInf PosInf = NaN"
| "js_add PosInf _ = PosInf"
| "js_add _ PosInf = PosInf"
| "js_add NegInf _ = NegInf"
| "js_add _ NegInf = NegInf"

definition js_sub :: "js_number \<Rightarrow> js_number \<Rightarrow> js_number" where
  "js_sub a b = js_add a (js_neg b)"

fun js_mul :: "js_number \<Rightarrow> js_number \<Rightarrow> js_number" where
  "js_mul (Num a) (Num b) = Num (a * b)"
| "js_mul NaN _ = NaN"
| "js_mul _ NaN = NaN"
| "js_mul PosInf (Num b) = (if b = 0 then NaN else if 0 < b then PosInf else NegInf)"
| "js_mul NegInf (Num b) = (if b = 0 then NaN else if 0 < b then NegInf else PosInf)"
| "js_mul (Num a) PosInf = (if a = 0 then NaN else if 0 < a then PosInf else NegInf)"
| "js_mul (Num a) NegInf = (if a = 0 then NaN else if 0 < a then NegInf else PosInf)"
| "js_mul PosInf PosInf = PosInf"
| "js_mul NegInf NegInf = PosInf"
| "js_mul PosInf NegInf = NegInf"
| "js_mul NegInf PosInf = NegInf"

fun js_div :: "js_number \<Rightarrow> js_number \<Rightarrow> js_number" where
  "js_div (Num a) (Num b) =
     (if b = 0 then (if a = 0 then NaN else if 0 < a then PosInf else NegInf)
      else Num (a / b))"
| "js_div NaN _ = NaN"
| "js_div _ NaN = NaN"
| "js_div (Num a) _ = Num 0"
| "js_div PosInf (Num b) = (if 0 \<le> b then PosInf else NegInf)"
| "js_div NegInf (Num b) = (if 0 \<le> b then NegInf else PosInf)"
| "js_div _ _ = NaN"

text \<open>\<open>Math.max\<close> of two numbers.\<close>

fun js_max :: "js_number \<Rightarrow> js_number \<Rightarrow> js_number" where
  "js_max (Num a) (Num b) = Num (max a b)"
| "js_max NaN _ = NaN"
| "js_max _ NaN = NaN"
| "js_max PosInf _ = PosInf"
| "js_max _ PosInf = PosInf"
| "js_max NegInf b = b"
| "js_max a NegInf = a"

text \<open>
  A property that may be absent from an object is an option; reading an absent
  property gives \<open>undefined\<close>, which arithmetic converts to \<open>NaN\<close>.
\<close>

fun to_number :: "js_number option \<Rightarrow> js_number" where
  "to_number None = NaN"
| "to_number (Some a) = a"

text \<open>
  The remainder operator \<open>%\<close> on integers, for a divisor other than zero: the result
  has the sign of the dividend.
\<close>

definition js_rem :: "int \<Rightarrow> int \<Rightarrow> int" where
  "js_rem a b = sgn a * (\<bar>a\<bar> mod \<bar>b\<bar>)"

datatype js_error = Error js_string | TypeError

section \<open>The page: DOM, timers, listeners\<close>

text \<open>
  Nodes are those of the loaded document (\<open>Doc\<close>) and those this script creates with
  \<open>document.createElement\<close> (\<open>New\<close>). The store maps every node to its data. The style
  declaration of a node maps a property name to its value; template literals with
  numeric holes are kept structured. The text of a node is one string per node.
\<close>

datatype node = Doc nat | New nat

datatype css_value =
    Text js_string
  | Px js_number
  | Percent js_number
  | FloatAnimation js_number js_number
  | Translate js_number js_number

record element =
  tagName :: js_string
  className :: "js_string list"
  style :: "js_string \<rightharpoonup> css_value"
  textContent :: js_string
  attributes :: "js_string \<rightharpoonup> js_string"
  children :: "node list"
  parent :: "node option"

record rect =
  rect_left :: js_number
  rect_top :: js_number
  rect_width :: js_number
  rect_height :: js_number

text \<open>What the script reads from the browser: selector queries and document state.\<close>

record document =
  query_container :: "nat option"
  query_h1 :: "nat option"
  query_subtitle :: "nat option"
  query_interactive_btn :: "nat option"
  query_particles :: "nat option"
  doc_body :: "nat option"
  hidden :: bool
  loading :: bool

text \<open>
  The module-level variable \<open>elements\<close>; the literal \<open>{}\<close> has every role absent. What
  \<open>querySelector\<close> and \<open>document.body\<close> give is a node of the document: \<open>Some n\<close> stands for
  the node \<open>Doc n\<close>.
\<close>

record element_cache =
  container :: "nat option"
  title :: "nat option"
  subtitle :: "nat option"
  interactiveBtn :: "nat option"
  body :: "nat option"
  particles :: "nat option"

text \<open>
  The closures the script hands to \<open>setTimeout\<close>, \<open>setInterval\<close> and
  \<open>requestAnimationFrame\<close>, each with the variables it captures. The typewriter's
  closure holds its mutable \<open>index\<close>.
\<close>

datatype callback =
    ContainerFadeIn
  | TitleTypewriter
  | SubtitleFadeInUp
  | ButtonFadeInUp
  | AnimateFrame node js_string
  | TypewriterTick node js_string nat
  | ButtonScaleBack node
  | AnimatingOff
  | ColorCycleTick
  | RippleRemove node
  | NotificationShow node
  | NotificationHide node
  | NotificationRemove node

datatype timer_kind = Timeout nat | Interval nat | AnimationFrame

datatype debounced = HandleResize | HandleMouseMove

datatype handler =
    Init
  | HandleInteractiveClick
  | HandleKeydown
  | Debounce debounced nat
  | HandleVisibilityChange
  | KeyboardNavigationOn
  | KeyboardNavigationOff
  | LogError

datatype event_target = Window | Document | Element node

record page =
  currentThemeIndex :: int
  isAnimating :: bool
  elements :: element_cache
  nodes :: "node \<Rightarrow> element"
  created :: nat
  listeners :: "(event_target \<times> js_string \<times> handler) list"
  timers :: "nat \<rightharpoonup> timer_kind \<times> callback"
  next_timer :: nat
  console :: "(js_string \<times> js_error) list"
  document :: document
  innerWidth :: js_number
  innerHeight :: js_number
  layout :: "node \<Rightarrow> rect"
  random :: "nat \<Rightarrow> real"
  random_used :: nat

text \<open>
  A call either returns, or throws with the state as it was at the \<open>throw\<close>: the
  effects before an exception stay.
\<close>

type_synonym outcome = "(js_error \<times> page) + page"

fun state_of :: "outcome \<Rightarrow> page" where
  "state_of (Inl (e, s)) = s"
| "state_of (Inr s) = s"

fun and_then :: "outcome \<Rightarrow> (page \<Rightarrow> outcome) \<Rightarrow> outcome" where
  "and_then (Inl t) f = Inl t"
| "and_then (Inr s) f = f s"

section \<open>Configuration and palette\<close>

definition animationDuration :: nat where "animationDuration = 300"
definition typewriterSpeed :: nat where "typewriterSpeed = 100"
definition colorCycleInterval :: nat where "colorCycleInterval = 3000"
definition particleCount :: nat where "particleCount = 50"

record theme =
  primary :: js_string
  secondary :: js_string
  accent :: js_string

definition THEMES :: "theme list" where
  "THEMES =
    [\<lparr>primary = js ''#667eea'', secondary = js ''#764ba2'', accent = js ''#f093fb''\<rparr>,
     \<lparr>primary = js ''#4facfe'', secondary = js ''#00f2fe'', accent = js ''#43e97b''\<rparr>,
     \<lparr>primary = js ''#fa709a'', secondary = js ''#fee140'', accent = js ''#a8edea''\<rparr>,
     \<lparr>primary = js ''#ffecd2'', secondary = js ''#fcb69f'', accent = js ''#667eea''\<rparr>,
     \<lparr>primary = js ''#a8edea'', secondary = js ''#fed6e3'', accent = js ''#ff9a9e''\<rparr>]"

text \<open>\<open>THEMES[i]\<close>: \<open>undefined\<close> outside the array.\<close>

definition theme_at :: "int \<Rightarrow> theme option" where
  "theme_at i = (if 0 \<le> i \<and> i < int (length THEMES) then Some (THEMES ! nat i) else None)"

section \<open>Browser primitives\<close>

definition update_node :: "node \<Rightarrow> (element \<Rightarrow> element) \<Rightarrow> page \<Rightarrow> page" where
  "update_node n f s = s\<lparr>nodes := (nodes s)(n := f (nodes s n))\<rparr>"

text \<open>\<open>el.style.p = v\<close> and \<open>el.style.setProperty(p, v)\<close>.\<close>

definition set_style :: "node \<Rightarrow> js_string \<Rightarrow> css_value \<Rightarrow> page \<Rightarrow> page" where
  "set_style n p v = update_node n (\<lambda>e. e\<lparr>style := (style e)(p \<mapsto> v)\<rparr>)"

text \<open>
  \<open>el.style.cssText = ...\<close> replaces the whole declaration block by the declarations of
  the text that the CSS parser accepts; the others are dropped. A length, a percentage
  or a time needs a finite number: \<open>NaNpx\<close> and \<open>Infinitypx\<close> are not lengths. A width, a
  height and the duration of an animation must not be negative.
\<close>

fun finite_number :: "js_number \<Rightarrow> bool" where
  "finite_number (Num a) = True"
| "finite_number n = False"

fun not_negative :: "js_number \<Rightarrow> bool" where
  "not_negative (Num a) = (0 \<le> a)"
| "not_negative n = False"

fun valid_declaration :: "js_string \<times> css_value \<Rightarrow> bool" where
  "valid_declaration (p, Text t) = True"
| "valid_declaration (p, Px n) =
     (if p = js ''width'' \<or> p = js ''height'' then not_negative n else finite_number n)"
| "valid_declaration (p, Percent n) =
     (if p = js ''width'' \<or> p = js ''height'' then not_negative n else finite_number n)"
| "valid_declaration (p, FloatAnimation duration delay) =
     (not_negative duration \<and> finite_number delay)"
| "valid_declaration (p, Translate x y) = (finite_number x \<and> finite_number y)"

definition set_cssText :: "node \<Rightarrow> (js_string \<times> css_value) list \<Rightarrow> page \<Rightarrow> page" where
  "set_cssText n ds = update_node n (\<lambda>e. e\<lparr>style := map_of (filter valid_declaration ds)\<rparr>)"

definition set_className :: "node \<Rightarrow> js_string \<Rightarrow> page \<Rightarrow> page" where
  "set_className n c = update_node n (\<lambda>e. e\<lparr>className := [c]\<rparr>)"

definition classList_add :: "node \<Rightarrow> js_string \<Rightarrow> page \<Rightarrow> page" where
  "classList_add n c =
     update_node n (\<lambda>e. if c \<in> set (className e) then e else e\<lparr>className := className e @ [c]\<rparr>)"

definition classList_remove :: "node \<Rightarrow> js_string \<Rightarrow> page \<Rightarrow> page" where
  "classList_remove n c = update_node n (\<lambda>e. e\<lparr>className := removeAll c (className e)\<rparr>)"

text \<open>Assigning \<open>textContent\<close> replaces the children of the node by the text.\<close>

definition set_textContent :: "node \<Rightarrow> js_string \<Rightarrow> page \<Rightarrow> page" where
  "set_textContent n t = update_node n (\<lambda>e. e\<lparr>textContent := t, children := []\<rparr>)"

definition setAttribute :: "node \<Rightarrow> js_string \<Rightarrow> js_string \<Rightarrow> page \<Rightarrow> page" where
  "setAttribute n a v = update_node n (\<lambda>e. e\<lparr>attributes := (attributes e)(a \<mapsto> v)\<rparr>)"

definition createElement :: "js_string \<Rightarrow> page \<Rightarrow> node \<times> page" where
  "createElement tag s =
     (New (created s),
      s\<lparr>nodes := (nodes s)(New (created s) :=
           \<lparr>tagName = tag, className = [], style = Map.empty, textContent = [],
            attributes = Map.empty, children = [], parent = None\<rparr>),
        created := Suc (created s)\<rparr>)"

text \<open>\<open>el.remove()\<close>.\<close>

definition remove_node :: "node \<Rightarrow> page \<Rightarrow> page" where
  "remove_node c s =
     (case parent (nodes s c) of
        None \<Rightarrow> s
      | Some p \<Rightarrow>
          update_node c (\<lambda>e. e\<lparr>parent := None\<rparr>)
            (update_node p (\<lambda>e. e\<lparr>children := removeAll c (children e)\<rparr>) s))"

definition appendChild :: "node \<Rightarrow> node \<Rightarrow> page \<Rightarrow> page" where
  "appendChild p c s =
     update_node c (\<lambda>e. e\<lparr>parent := Some p\<rparr>)
       (update_node p (\<lambda>e. e\<lparr>children := children e @ [c]\<rparr>) (remove_node c s))"

definition schedule :: "timer_kind \<Rightarrow> callback \<Rightarrow> page \<Rightarrow> page" where
  "schedule k cb s =
     s\<lparr>timers := (timers s)(next_timer s \<mapsto> (k, cb)), next_timer := Suc (next_timer s)\<rparr>"

definition setTimeout :: "callback \<Rightarrow> nat \<Rightarrow> page \<Rightarrow> page" where
  "setTimeout cb delay = schedule (Timeout delay) cb"

definition setInterval :: "callback \<Rightarrow> nat \<Rightarrow> page \<Rightarrow> page" where
  "setInterval cb delay = schedule (Interval delay) cb"

definition requestAnimationFrame :: "callback \<Rightarrow> page \<Rightarrow> page" where
  "requestAnimationFrame cb = schedule AnimationFrame cb"

definition clearInterval :: "nat \<Rightarrow> page \<Rightarrow> page" where
  "clearInterval i s =
     (case timers s i of
        Some (AnimationFrame, cb) \<Rightarrow> s
      | _ \<Rightarrow> s\<lparr>timers := (timers s)(i := None)\<rparr>)"

definition addEventListener :: "event_target \<Rightarrow> js_string \<Rightarrow> handler \<Rightarrow> page \<Rightarrow> page" where
  "addEventListener tg ty h s = s\<lparr>listeners := listeners s @ [(tg, ty, h)]\<rparr>"

definition registered :: "event_target \<Rightarrow> js_string \<Rightarrow> handler \<Rightarrow> page \<Rightarrow> bool" where
  "registered tg ty h s = ((tg, ty, h) \<in> set (listeners s))"

definition console_error :: "js_string \<Rightarrow> js_error \<Rightarrow> page \<Rightarrow> page" where
  "console_error msg e s = s\<lparr>console := console s @ [(msg, e)]\<rparr>"

text \<open>\<open>Math.random()\<close> reads the next value of a stream the environment supplies.\<close>

definition Math_random :: "page \<Rightarrow> js_number \<times> page" where
  "Math_random s = (Num (random s (random_used s)), s\<lparr>random_used := Suc (random_used s)\<rparr>)"

text \<open>
  Events. \<open>prevents\<close> tells whether \<open>preventDefault\<close> is the browser's method or the
  empty arrow function of the object that \<open>handleKeydown\<close> builds.
\<close>

record event =
  prevents :: bool
  defaultPrevented :: bool

record mouse_event = event +
  currentTarget :: node
  clientX :: "js_number option"
  clientY :: "js_number option"

record key_event = event +
  key :: js_string
  target :: event_target

definition preventDefault :: "'a event_scheme \<Rightarrow> 'a event_scheme" where
  "preventDefault e = (if prevents e then e\<lparr>defaultPrevented := True\<rparr> else e)"

section \<open>The functions of \<^verbatim>\<open>script.js\<close>\<close>

subsection \<open>Caching the elements\<close>

definition cacheElements :: "page \<Rightarrow> outcome" where
  "cacheElements s =
     (let d = document s;
          s' = s\<lparr>elements :=
                 \<lparr>container = query_container d, title = query_h1 d,
                  subtitle = query_subtitle d, interactiveBtn = query_interactive_btn d,
                  body = doc_body d, particles = query_particles d\<rparr>\<rparr>
      in if container (elements s') = None \<or> title (elements s') = None
         then Inl (Error (js ''Essential DOM elements not found''), s')
         else Inr s')"

definition setupEventListeners :: "page \<Rightarrow> page" where
  "setupEventListeners s =
     (let s1 = (case interactiveBtn (elements s) of
                  None \<Rightarrow> s
                | Some b \<Rightarrow> addEventListener (Element (Doc b)) (js ''click'') HandleInteractiveClick s);
          s2 = addEventListener Document (js ''keydown'') HandleKeydown s1;
          s3 = addEventListener Window (js ''resize'') (Debounce HandleResize 250) s2;
          s4 = addEventListener Document (js ''mousemove'') (Debounce HandleMouseMove 16) s3
      in addEventListener Document (js ''visibilitychange'') HandleVisibilityChange s4)"

subsection \<open>Entrance animations\<close>

definition initializeAnimations :: "page \<Rightarrow> page" where
  "initializeAnimations s =
     (case container (elements s) of
        None \<Rightarrow> s
      | Some c \<Rightarrow>
          let s1 = set_style (Doc c) (js ''opacity'') (Text (js ''0'')) s;
              s2 = set_style (Doc c) (js ''transform'') (Text (js ''translateY(30px)'')) s1;
              s3 = requestAnimationFrame ContainerFadeIn s2;
              s4 = (if title (elements s3) \<noteq> None then setTimeout TitleTypewriter 500 s3 else s3);
              s5 = (if subtitle (elements s4) \<noteq> None then setTimeout SubtitleFadeInUp 1000 s4 else s4)
          in if interactiveBtn (elements s5) \<noteq> None then setTimeout ButtonFadeInUp 1500 s5 else s5)"

text \<open>The frame callback of \<open>initializeAnimations\<close>; it reads \<open>elements.container\<close> again.\<close>

definition containerFadeIn :: "page \<Rightarrow> outcome" where
  "containerFadeIn s =
     (case container (elements s) of
        None \<Rightarrow> Inl (TypeError, s)
      | Some c \<Rightarrow>
          Inr (set_style (Doc c) (js ''transform'') (Text (js ''translateY(0)''))
                (set_style (Doc c) (js ''opacity'') (Text (js ''1''))
                  (set_style (Doc c) (js ''transition'')
                     (Text (js ''opacity 300ms ease, transform 300ms ease'')) s))))"

text \<open>\<open>text[index]\<close> as it is appended to a string.\<close>

definition text_at :: "js_string \<Rightarrow> nat \<Rightarrow> js_string" where
  "text_at text index = (if index < length text then [text ! index] else js ''undefined'')"

definition typewriterEffect :: "node option \<Rightarrow> page \<Rightarrow> page" where
  "typewriterEffect element s =
     (case element of
        None \<Rightarrow> s
      | Some el \<Rightarrow>
          let text = textContent (nodes s el);
              s1 = set_textContent el [] s;
              s2 = set_style el (js ''opacity'') (Text (js ''1'')) s1
          in setInterval (TypewriterTick el text 0) typewriterSpeed s2)"

text \<open>
  One run of the interval callback of \<open>typewriterEffect\<close>, for the interval \<open>timer\<close>:
  the closure's \<open>index\<close> is stored back into the timer table.
\<close>

definition typewriterTick :: "nat \<Rightarrow> node \<Rightarrow> js_string \<Rightarrow> nat \<Rightarrow> page \<Rightarrow> page" where
  "typewriterTick timer el text index s =
     (let s1 = set_textContent el (textContent (nodes s el) @ text_at text index) s;
          index' = Suc index;
          s2 = s1\<lparr>timers := (timers s1)(timer \<mapsto> (Interval typewriterSpeed, TypewriterTick el text index'))\<rparr>
      in if index' \<ge> length text
         then classList_add el (js ''typewriter-complete'') (clearInterval timer s2)
         else s2)"

definition animateElement :: "node option \<Rightarrow> js_string \<Rightarrow> page \<Rightarrow> page" where
  "animateElement element animationClass s =
     (case element of
        None \<Rightarrow> s
      | Some el \<Rightarrow>
          let s1 = set_style el (js ''opacity'') (Text (js ''0'')) s;
              s2 = set_style el (js ''transform'') (Text (js ''translateY(20px)'')) s1
          in requestAnimationFrame (AnimateFrame el animationClass) s2)"

definition animateFrame :: "node \<Rightarrow> js_string \<Rightarrow> page \<Rightarrow> page" where
  "animateFrame el animationClass s =
     classList_add el animationClass
       (set_style el (js ''transform'') (Text (js ''translateY(0)''))
         (set_style el (js ''opacity'') (Text (js ''1''))
           (set_style el (js ''transition'') (Text (js ''all 300ms ease'')) s)))"

subsection \<open>Themes\<close>

definition applyTheme :: "theme option \<Rightarrow> page \<Rightarrow> outcome" where
  "applyTheme theme s =
     (case body (elements s) of
        None \<Rightarrow> Inr s
      | Some b \<Rightarrow>
          (case theme of
             None \<Rightarrow> Inl (TypeError, s)
           | Some t \<Rightarrow>
               Inr (set_style (Doc b) (js ''--accent-color'') (Text (accent t))
                     (set_style (Doc b) (js ''--secondary-color'') (Text (secondary t))
                       (set_style (Doc b) (js ''--primary-color'') (Text (primary t)) s)))))"

definition cycleTheme :: "page \<Rightarrow> outcome" where
  "cycleTheme s =
     (let s1 = s\<lparr>currentThemeIndex := js_rem (currentThemeIndex s + 1) (int (length THEMES))\<rparr>
      in applyTheme (theme_at (currentThemeIndex s1)) s1)"

definition colorCycleTick :: "page \<Rightarrow> outcome" where
  "colorCycleTick s =
     (if \<not> hidden (document s) \<and> \<not> isAnimating s then cycleTheme s else Inr s)"

definition startColorCycle :: "page \<Rightarrow> page" where
  "startColorCycle s = setInterval ColorCycleTick colorCycleInterval s"

subsection \<open>Particles\<close>

text \<open>
  \<open>createParticle\<close> and \<open>updateParticles\<close> read \<open>elements.particles\<close>, which their
  callers have tested; they take the host found there. The nodes that
  \<open>querySelectorAll('.particle')\<close> finds below the host are taken to be its children
  of that class.
\<close>

definition createParticle :: "nat \<Rightarrow> page \<Rightarrow> page" where
  "createParticle host s =
     (let (particle, s1) = createElement (js ''div'') s;
          s2 = set_className particle (js ''particle'') s1;
          (r1, s3) = Math_random s2;
          size = js_add (js_mul r1 (Num 4)) (Num 2);
          (r2, s4) = Math_random s3;
          x = js_mul r2 (Num 100);
          (r3, s5) = Math_random s4;
          y = js_mul r3 (Num 100);
          (r4, s6) = Math_random s5;
          duration = js_add (js_mul r4 (Num 20)) (Num 10);
          (r5, s7) = Math_random s6;
          delay = js_mul r5 (Num 5);
          s8 = set_cssText particle
                 [(js ''width'', Px size), (js ''height'', Px size),
                  (js ''left'', Percent x), (js ''top'', Percent y),
                  (js ''animation'', FloatAnimation duration delay)] s7
      in appendChild (Doc host) particle s8)"

definition createParticleSystem :: "page \<Rightarrow> page" where
  "createParticleSystem s =
     (case particles (elements s) of
        None \<Rightarrow> s
      | Some host \<Rightarrow> (createParticle host ^^ particleCount) s)"

definition repositionParticle :: "node \<Rightarrow> page \<Rightarrow> page" where
  "repositionParticle particle s =
     (let (r1, s1) = Math_random s;
          s2 = set_style particle (js ''left'') (Percent (js_mul r1 (Num 100))) s1;
          (r2, s3) = Math_random s2
      in set_style particle (js ''top'') (Percent (js_mul r2 (Num 100))) s3)"

definition updateParticles :: "nat \<Rightarrow> page \<Rightarrow> page" where
  "updateParticles host s =
     fold repositionParticle
       (filter (\<lambda>n. js ''particle'' \<in> set (className (nodes s n))) (children (nodes s (Doc host)))) s"

definition handleResize :: "page \<Rightarrow> page" where
  "handleResize s =
     (case particles (elements s) of None \<Rightarrow> s | Some host \<Rightarrow> updateParticles host s)"

subsection \<open>Ripple and notification\<close>

definition createRippleEffect :: "mouse_event \<Rightarrow> page \<Rightarrow> page" where
  "createRippleEffect event s =
     (let button = currentTarget event;
          (ripple, s1) = createElement (js ''span'') s;
          rect = layout s1 button;
          size = js_max (rect_width rect) (rect_height rect);
          x = js_sub (js_sub (to_number (clientX event)) (rect_left rect)) (js_div size (Num 2));
          y = js_sub (js_sub (to_number (clientY event)) (rect_top rect)) (js_div size (Num 2));
          s2 = set_className ripple (js ''ripple'') s1;
          s3 = set_cssText ripple
                 [(js ''width'', Px size), (js ''height'', Px size),
                  (js ''left'', Px x), (js ''top'', Px y)] s2;
          s4 = appendChild button ripple s3
      in setTimeout (RippleRemove ripple) 600 s4)"

definition showNotification :: "js_string \<Rightarrow> page \<Rightarrow> outcome" where
  "showNotification message s =
     (let (notification, s1) = createElement (js ''div'') s;
          s2 = set_className notification (js ''notification'') s1;
          s3 = set_textContent notification message s2;
          s4 = setAttribute notification (js ''role'') (js ''status'') s3;
          s5 = setAttribute notification (js ''aria-live'') (js ''polite'') s4
      in case doc_body (document s5) of
           None \<Rightarrow> Inl (TypeError, s5)
         | Some b \<Rightarrow>
             Inr (setTimeout (NotificationHide notification) 2000
                   (requestAnimationFrame (NotificationShow notification)
                     (appendChild (Doc b) notification s5))))"

definition notificationHide :: "node \<Rightarrow> page \<Rightarrow> page" where
  "notificationHide notification s =
     setTimeout (NotificationRemove notification) 300
       (classList_remove notification (js ''show'') s)"

subsection \<open>Handlers\<close>

text \<open>The message of the click handler ends with the character U+2728.\<close>

definition theme_changed :: js_string where
  "theme_changed = js ''Theme changed! '' @ [0x2728]"

definition handleInteractiveClick :: "mouse_event \<Rightarrow> page \<Rightarrow> mouse_event \<times> outcome" where
  "handleInteractiveClick event s =
     (preventDefault event,
      if isAnimating s then Inr s
      else
        let s1 = s\<lparr>isAnimating := True\<rparr>;
            button = currentTarget event;
            s2 = set_style button (js ''transform'') (Text (js ''scale(0.95)'')) s1;
            s3 = setTimeout (ButtonScaleBack button) 150 s2
        in and_then (cycleTheme s3) (\<lambda>s4.
             and_then (showNotification theme_changed (createRippleEffect event s4)) (\<lambda>s5.
               Inr (setTimeout AnimatingOff animationDuration s5))))"

definition handleKeydown :: "key_event \<Rightarrow> page \<Rightarrow> key_event \<times> outcome" where
  "handleKeydown event s =
     (if key event = js '' '' \<or> key event = js ''Enter'' then
        (case interactiveBtn (elements s) of
           None \<Rightarrow> (event, Inr s)
         | Some b \<Rightarrow>
             if target event = Element (Doc b)
             then (preventDefault event,
                   snd (handleInteractiveClick
                          \<lparr>prevents = False, defaultPrevented = False,
                           currentTarget = Doc b, clientX = None, clientY = None\<rparr> s))
             else (event, Inr s))
      else if key event = js ''Escape'' then
        (event,
         let s1 = s\<lparr>currentThemeIndex := 0\<rparr>
         in applyTheme (theme_at (currentThemeIndex s1)) s1)
      else (event, Inr s))"

definition handleMouseMove :: "mouse_event \<Rightarrow> page \<Rightarrow> page" where
  "handleMouseMove event s =
     (case container (elements s) of
        None \<Rightarrow> s
      | Some c \<Rightarrow>
          let xPercent = js_mul (js_sub (js_div (to_number (clientX event)) (innerWidth s)) (Num (1/2))) (Num 2);
              yPercent = js_mul (js_sub (js_div (to_number (clientY event)) (innerHeight s)) (Num (1/2))) (Num 2);
              translateX = js_mul xPercent (Num 10);
              translateY = js_mul yPercent (Num 10)
          in set_style (Doc c) (js ''transform'') (Translate translateX translateY) s)"

definition pauseAnimations :: "page \<Rightarrow> outcome" where
  "pauseAnimations s =
     (case body (elements s) of
        None \<Rightarrow> Inl (TypeError, s)
      | Some b \<Rightarrow> Inr (set_style (Doc b) (js ''animation-play-state'') (Text (js ''paused'')) s))"

definition resumeAnimations :: "page \<Rightarrow> outcome" where
  "resumeAnimations s =
     (case body (elements s) of
        None \<Rightarrow> Inl (TypeError, s)
      | Some b \<Rightarrow> Inr (set_style (Doc b) (js ''animation-play-state'') (Text (js ''running'')) s))"

definition handleVisibilityChange :: "page \<Rightarrow> outcome" where
  "handleVisibilityChange s =
     (if hidden (document s) then pauseAnimations s else resumeAnimations s)"

subsection \<open>Accessibility\<close>

definition keyboardNavigationOn :: "key_event \<Rightarrow> page \<Rightarrow> outcome" where
  "keyboardNavigationOn event s =
     (if key event = js ''Tab'' then
        (case doc_body (document s) of
           None \<Rightarrow> Inl (TypeError, s)
         | Some b \<Rightarrow> Inr (classList_add (Doc b) (js ''keyboard-navigation'') s))
      else Inr s)"

definition keyboardNavigationOff :: "page \<Rightarrow> outcome" where
  "keyboardNavigationOff s =
     (case doc_body (document s) of
        None \<Rightarrow> Inl (TypeError, s)
      | Some b \<Rightarrow> Inr (classList_remove (Doc b) (js ''keyboard-navigation'') s))"

definition setupAccessibility :: "page \<Rightarrow> page" where
  "setupAccessibility s =
     (let s1 = (case interactiveBtn (elements s) of
                  None \<Rightarrow> s
                | Some b \<Rightarrow> setAttribute (Doc b) (js ''aria-label'') (js ''Change color theme'') s);
          s2 = addEventListener Document (js ''keydown'') KeyboardNavigationOn s1
      in addEventListener Document (js ''mousedown'') KeyboardNavigationOff s2)"

subsection \<open>Initialisation\<close>

definition init :: "page \<Rightarrow> page" where
  "init s =
     (case cacheElements s of
        Inl (error, s') \<Rightarrow> console_error (js ''Failed to initialize Hello Naz app:'') error s'
      | Inr s' \<Rightarrow>
          setupAccessibility
            (createParticleSystem
              (startColorCycle
                (initializeAnimations
                  (setupEventListeners s')))))"

text \<open>The body of the module: the error listener, then \<open>init\<close> now or when the page is ready.\<close>

definition main :: "page \<Rightarrow> page" where
  "main s =
     (let s1 = addEventListener Window (js ''error'') LogError s
      in if loading (document s1)
         then addEventListener Document (js ''DOMContentLoaded'') Init s1
         else init s1)"

text \<open>The state in which the module starts to run, for a given browser environment.\<close>

definition initial_page ::
  "document \<Rightarrow> (node \<Rightarrow> element) \<Rightarrow> js_number \<Rightarrow> js_number \<Rightarrow> (node \<Rightarrow> rect) \<Rightarrow> (nat \<Rightarrow> real) \<Rightarrow> page" where
  "initial_page d ns w h lay rnd =
     \<lparr>currentThemeIndex = 0, isAnimating = False,
      elements = \<lparr>container = None, title = None, subtitle = None, interactiveBtn = None,
                  body = None, particles = None\<rparr>,
      nodes = ns, created = 0, listeners = [], timers = Map.empty, next_timer = 0,
      console = [], document = d, innerWidth = w, innerHeight = h, layout = lay,
      random = rnd, random_used = 0\<rparr>"

section \<open>The event loop\<close>

fun run_callback :: "nat \<Rightarrow> callback \<Rightarrow> page \<Rightarrow> outcome" where
  "run_callback timer ContainerFadeIn s = containerFadeIn s"
| "run_callback timer TitleTypewriter s =
     Inr (typewriterEffect (map_option Doc (title (elements s))) s)"
| "run_callback timer SubtitleFadeInUp s =
     Inr (animateElement (map_option Doc (subtitle (elements s))) (js ''fadeInUp'') s)"
| "run_callback timer ButtonFadeInUp s =
     Inr (animateElement (map_option Doc (interactiveBtn (elements s))) (js ''fadeInUp'') s)"
| "run_callback timer (AnimateFrame el c) s = Inr (animateFrame el c s)"
| "run_callback timer (TypewriterTick el text index) s = Inr (typewriterTick timer el text index s)"
| "run_callback timer (ButtonScaleBack button) s =
     Inr (set_style button (js ''transform'') (Text (js ''scale(1)'')) s)"
| "run_callback timer AnimatingOff s = Inr (s\<lparr>isAnimating := False\<rparr>)"
| "run_callback timer ColorCycleTick s = colorCycleTick s"
| "run_callback timer (RippleRemove ripple) s = Inr (remove_node ripple s)"
| "run_callback timer (NotificationShow n) s = Inr (classList_add n (js ''show'') s)"
| "run_callback timer (NotificationHide n) s = Inr (notificationHide n s)"
| "run_callback timer (NotificationRemove n) s = Inr (remove_node n s)"

text \<open>
  The browser runs the callback registered under a timer id. A timeout and an
  animation frame leave the table before they run; an interval stays until cleared.
\<close>

definition fire :: "nat \<Rightarrow> page \<Rightarrow> outcome" where
  "fire timer s =
     (case timers s timer of
        None \<Rightarrow> Inr s
      | Some (Interval d, cb) \<Rightarrow> run_callback timer cb s
      | Some (k, cb) \<Rightarrow> run_callback timer cb (s\<lparr>timers := (timers s)(timer := None)\<rparr>))"

text \<open>An exception that leaves a callback reaches the \<open>error\<close> listener of the window.\<close>

definition uncaught :: "outcome \<Rightarrow> page" where
  "uncaught r =
     (case r of
        Inr s \<Rightarrow> s
      | Inl (e, s) \<Rightarrow>
          if registered Window (js ''error'') LogError s
          then console_error (js ''Hello Naz App Error:'') e s
          else s)"

text \<open>
  What can happen to the page: the browser dispatches an event to the listeners
  registered for it, runs a timer, or another script calls \<open>window.HelloNazApp\<close>.
  For the two debounced listeners a step is a run of the wrapped handler; when the
  wrapper lets it run is the subject of the section on \<open>debounce\<close>.
\<close>

datatype step =
    DOMContentLoaded
  | Click mouse_event
  | Keydown key_event
  | Resize js_number js_number
  | MouseMove mouse_event
  | VisibilityChange bool
  | MouseDown
  | Fire nat
  | ApiCycleTheme
  | ApiShowNotification js_string
  | ApiApplyTheme "theme option"

fun exec :: "step \<Rightarrow> page \<Rightarrow> page" where
  "exec DOMContentLoaded s =
     (if loading (document s) then
        let s1 = s\<lparr>document := (document s)\<lparr>loading := False\<rparr>\<rparr>
        in if registered Document (js ''DOMContentLoaded'') Init s1 then init s1 else s1
      else s)"
| "exec (Click e) s =
     (if registered (Element (currentTarget e)) (js ''click'') HandleInteractiveClick s
      then uncaught (snd (handleInteractiveClick e s)) else s)"
| "exec (Keydown e) s =
     (let s1 = (if registered Document (js ''keydown'') HandleKeydown s
                then uncaught (snd (handleKeydown e s)) else s)
      in if registered Document (js ''keydown'') KeyboardNavigationOn s
         then uncaught (keyboardNavigationOn e s1) else s1)"
| "exec (Resize w h) s =
     (let s1 = s\<lparr>innerWidth := w, innerHeight := h\<rparr>
      in if registered Window (js ''resize'') (Debounce HandleResize 250) s1
         then handleResize s1 else s1)"
| "exec (MouseMove e) s =
     (if registered Document (js ''mousemove'') (Debounce HandleMouseMove 16) s
      then handleMouseMove e s else s)"
| "exec (VisibilityChange h) s =
     (let s1 = s\<lparr>document := (document s)\<lparr>hidden := h\<rparr>\<rparr>
      in if registered Document (js ''visibilitychange'') HandleVisibilityChange s1
         then uncaught (handleVisibilityChange s1) else s1)"
| "exec MouseDown s =
     (if registered Document (js ''mousedown'') KeyboardNavigationOff s
      then uncaught (keyboardNavigationOff s) else s)"
| "exec (Fire timer) s = uncaught (fire timer s)"
| "exec ApiCycleTheme s = uncaught (cycleTheme s)"
| "exec (ApiShowNotification message) s = uncaught (showNotification message s)"
| "exec (ApiApplyTheme theme) s = uncaught (applyTheme theme s)"

definition run :: "step list \<Rightarrow> page \<Rightarrow> page" where
  "run steps s = fold exec steps s"

section \<open>The debounce utility\<close>

text \<open>
  \<open>debounce(func, wait)\<close> returns a function that shares the variable \<open>timeout\<close> with
  the timers it sets. The model keeps that variable, the timers set with
  \<open>setTimeout\<close> and not yet run or cleared (identifier, due time in milliseconds, the
  arguments that \<open>later\<close> captured), the clock, and the calls of \<open>func\<close> so far.
\<close>

record 'a debouncer =
  timeout :: "nat option"
  pending :: "(nat \<times> nat \<times> 'a) list"
  next_id :: nat
  now :: nat
  calls :: "'a list"

definition debounce :: "'a debouncer" where
  "debounce = \<lparr>timeout = None, pending = [], next_id = 0, now = 0, calls = []\<rparr>"

definition clearTimeout :: "nat option \<Rightarrow> 'a debouncer \<Rightarrow> 'a debouncer" where
  "clearTimeout i d = d\<lparr>pending := filter (\<lambda>(j, due, a). Some j \<noteq> i) (pending d)\<rparr>"

definition executedFunction :: "nat \<Rightarrow> 'a \<Rightarrow> 'a debouncer \<Rightarrow> 'a debouncer" where
  "executedFunction wait args d =
     (let d1 = clearTimeout (timeout d) d
      in d1\<lparr>pending := pending d1 @ [(next_id d1, now d1 + wait, args)],
            next_id := Suc (next_id d1),
            timeout := Some (next_id d1)\<rparr>)"

definition later :: "'a \<Rightarrow> 'a debouncer \<Rightarrow> 'a debouncer" where
  "later args d = (let d1 = clearTimeout (timeout d) d in d1\<lparr>calls := calls d1 @ [args]\<rparr>)"

text \<open>The timers due at time \<open>t\<close>, and the earliest of them.\<close>

definition due_at :: "nat \<Rightarrow> 'a debouncer \<Rightarrow> (nat \<times> nat \<times> 'a) list" where
  "due_at t d = filter (\<lambda>(j, due, a). due \<le> t) (pending d)"

text \<open>
  A timer that is due runs \<open>later\<close>, unless it has been cleared meanwhile. When the
  clock moves to \<open>t\<close>, the timers due by then run in the order of their due times.
\<close>

definition run_timer :: "nat \<times> nat \<times> 'a \<Rightarrow> 'a debouncer \<Rightarrow> 'a debouncer" where
  "run_timer tm d =
     (case tm of (j, due, a) \<Rightarrow>
        if j \<in> set (map fst (pending d))
        then later a (d\<lparr>pending := filter (\<lambda>(k, due', b). k \<noteq> j) (pending d),
                        now := max (now d) due\<rparr>)
        else d)"

definition advance :: "nat \<Rightarrow> 'a debouncer \<Rightarrow> 'a debouncer" where
  "advance t d =
     (let d1 = fold run_timer (sort_key (\<lambda>(j, due, a). due) (due_at t d)) d
      in d1\<lparr>now := max (now d1) t\<rparr>)"

text \<open>A burst: the calls of the debounced function, each with the time at which it arrives.\<close>

fun burst :: "nat \<Rightarrow> (nat \<times> 'a) list \<Rightarrow> 'a debouncer \<Rightarrow> 'a debouncer" where
  "burst wait [] d = d"
| "burst wait ((t, args) # cs) d = burst wait cs (executedFunction wait args (advance t d))"

text \<open>Every call of the burst arrives before the delay set by the call before it ends.\<close>

fun in_window :: "nat \<Rightarrow> nat list \<Rightarrow> bool" where
  "in_window wait (t # u # ts) = (t \<le> u \<and> u < t + wait \<and> in_window wait (u # ts))"
| "in_window wait ts = True"

section \<open>Sequences of calls\<close>

text \<open>\<open>n\<close> calls of \<open>cycleTheme\<close>, one after the other.\<close>

fun cycles :: "nat \<Rightarrow> page \<Rightarrow> outcome" where
  "cycles 0 s = Inr s"
| "cycles (Suc n) s = and_then (cycles n s) cycleTheme"

text \<open>The three colour variables, as the style of a document node holds them.\<close>

definition color_vars :: "page \<Rightarrow> nat \<Rightarrow> css_value option \<times> css_value option \<times> css_value option" where
  "color_vars s n =
     (style (nodes s (Doc n)) (js ''--primary-color''),
      style (nodes s (Doc n)) (js ''--secondary-color''),
      style (nodes s (Doc n)) (js ''--accent-color''))"

definition theme_vars :: "theme \<Rightarrow> css_value option \<times> css_value option \<times> css_value option" where
  "theme_vars t = (Some (Text (primary t)), Some (Text (secondary t)), Some (Text (accent t)))"

section \<open>Observations\<close>

text \<open>The part of the page that the theme logic reads and writes.\<close>

definition theme_view :: "page \<Rightarrow> int \<times> bool \<times> element_cache \<times> document \<times> (nat \<Rightarrow> css_value option \<times> css_value option \<times> css_value option)" where
  "theme_view s = (currentThemeIndex s, isAnimating s, elements s, document s, color_vars s)"

text \<open>The index points into the palette.\<close>

definition index_ok :: "page \<Rightarrow> bool" where
  "index_ok s = (0 \<le> currentThemeIndex s \<and> currentThemeIndex s < int (length THEMES))"

text \<open>The three writes of \<open>applyTheme\<close> on the style of the body \<open>b\<close>, as one update.\<close>

definition write_theme :: "nat \<Rightarrow> theme \<Rightarrow> page \<Rightarrow> page" where
  "write_theme b t s =
     s\<lparr>nodes := (nodes s)(Doc b := (nodes s (Doc b))\<lparr>style :=
         (style (nodes s (Doc b)))(js ''--primary-color'' \<mapsto> Text (primary t),
            js ''--secondary-color'' \<mapsto> Text (secondary t),
            js ''--accent-color'' \<mapsto> Text (accent t))\<rparr>)\<rparr>"

text \<open>The colour variables after a theme has been applied, if the body is cached and the theme defined.\<close>

definition painted :: "nat option \<Rightarrow> theme option \<Rightarrow>
    (nat \<Rightarrow> css_value option \<times> css_value option \<times> css_value option) \<Rightarrow>
    (nat \<Rightarrow> css_value option \<times> css_value option \<times> css_value option)" where
  "painted b t cv = (case (b, t) of (Some n, Some th) \<Rightarrow> cv(n := theme_vars th) | _ \<Rightarrow> cv)"

text \<open>
  What a step may do to the theme state: the index stays, advances once or returns to
  0, and the colour variables change only by the theme of the palette at the new index,
  or by the theme that a call of the public \<open>applyTheme\<close> passes.
\<close>

definition theme_moves :: "step \<Rightarrow> page \<Rightarrow> page \<Rightarrow> bool" where
  "theme_moves st s s' =
     (\<exists>i a el d t. theme_view s' = (i, a, el, d, painted (body (elements s)) t (color_vars s)) \<and>
        (i = currentThemeIndex s \<or> i = js_rem (currentThemeIndex s + 1) 5 \<or> i = 0) \<and>
        (t = None \<or> t = theme_at i \<or> st = ApiApplyTheme t))"

text \<open>
  The steps whose code reaches a call of \<open>applyTheme\<close>: the click and the keys (through
  \<open>handleInteractiveClick\<close> and the reset), the timers (through the colour cycle), and
  the two operations of the public interface.
\<close>

fun calls_applyTheme :: "step \<Rightarrow> bool" where
  "calls_applyTheme (Click e) = True"
| "calls_applyTheme (Keydown e) = True"
| "calls_applyTheme (Fire timer) = True"
| "calls_applyTheme ApiCycleTheme = True"
| "calls_applyTheme (ApiApplyTheme theme) = True"
| "calls_applyTheme st = False"

text \<open>What \<open>cacheElements\<close> stores, and its test of the two essential roles.\<close>

definition cached :: "document \<Rightarrow> element_cache" where
  "cached d = \<lparr>container = query_container d, title = query_h1 d,
                  subtitle = query_subtitle d, interactiveBtn = query_interactive_btn d,
                  body = doc_body d, particles = query_particles d\<rparr>"

definition essential_missing :: "page \<Rightarrow> bool" where
  "essential_missing s = (query_container (document s) = None \<or> query_h1 (document s) = None)"

text \<open>The listeners that a successful \<open>init\<close> registers, in order.\<close>

definition registered_by_init :: "nat option \<Rightarrow> (event_target \<times> js_string \<times> handler) list" where
  "registered_by_init btn =
     (case btn of None \<Rightarrow> [] | Some b \<Rightarrow> [(Element (Doc b), js ''click'', HandleInteractiveClick)]) @
     [(Document, js ''keydown'', HandleKeydown),
      (Window, js ''resize'', Debounce HandleResize 250),
      (Document, js ''mousemove'', Debounce HandleMouseMove 16),
      (Document, js ''visibilitychange'', HandleVisibilityChange),
      (Document, js ''keydown'', KeyboardNavigationOn),
      (Document, js ''mousedown'', KeyboardNavigationOff)]"

text \<open>The event object that \<open>handleKeydown\<close> passes to the click handler.\<close>

definition synthetic_click :: "nat \<Rightarrow> mouse_event" where
  "synthetic_click b = \<lparr>prevents = False, defaultPrevented = False,
                           currentTarget = Doc b, clientX = None, clientY = None\<rparr>"

text \<open>
  The typewriter at work on a node: its interval is registered with the index \<open>k\<close>, and
  the node shows the first \<open>k\<close> code units. The marker of completion is a class.
\<close>

definition typing :: "nat \<Rightarrow> node \<Rightarrow> js_string \<Rightarrow> nat \<Rightarrow> page \<Rightarrow> bool" where
  "typing timer el text k s =
     (timers s timer = Some (Interval typewriterSpeed, TypewriterTick el text k) \<and>
      textContent (nodes s el) = take k text)"

definition typewriter_complete :: "node \<Rightarrow> page \<Rightarrow> bool" where
  "typewriter_complete el s = (js ''typewriter-complete'' \<in> set (className (nodes s el)))"

text \<open>
  The debounced function with one timer pending: set at time \<open>t\<close> for the arguments
  \<open>a\<close>, and held by \<open>timeout\<close>.
\<close>

definition armed :: "nat \<Rightarrow> nat \<Rightarrow> 'a \<Rightarrow> 'a list \<Rightarrow> 'a debouncer \<Rightarrow> bool" where
  "armed wait t a c d =
     (\<exists>j. pending d = [(j, t + wait, a)] \<and> timeout d = Some j \<and> now d = t \<and> calls d = c)"

section \<open>An example page\<close>

text \<open>
  A document with every role present: the body is node 0, the container 1, the heading
  2, the subtitle 3, the button 4 and the particle host 5; the heading reads \<open>Hi\<close>.
\<close>

definition example_document :: document where
  "example_document =
     \<lparr>query_container = Some 1, query_h1 = Some 2, query_subtitle = Some 3,
      query_interactive_btn = Some 4, query_particles = Some 5, doc_body = Some 0,
      hidden = False, loading = False\<rparr>"

definition example_nodes :: "node \<Rightarrow> element" where
  "example_nodes n =
     \<lparr>tagName = [], className = [], style = Map.empty,
      textContent = (if n = Doc 2 then js ''Hi'' else []),
      attributes = Map.empty, children = [], parent = None\<rparr>"

definition example_layout :: "node \<Rightarrow> rect" where
  "example_layout n = \<lparr>rect_left = Num 100, rect_top = Num 50, rect_width = Num 80, rect_height = Num 40\<rparr>"

definition example_page :: page where
  "example_page =
     initial_page example_document example_nodes (Num 800) (Num 600) example_layout (\<lambda>n. 1 / 2)"

text \<open>A click on the button, the Escape key, and a page whose container is missing.\<close>

definition example_click :: mouse_event where
  "example_click =
     \<lparr>prevents = True, defaultPrevented = False, currentTarget = Doc 4,
      clientX = Some (Num 120), clientY = Some (Num 60)\<rparr>"

definition example_escape :: key_event where
  "example_escape = \<lparr>prevents = True, defaultPrevented = False, key = js ''Escape'', target = Document\<rparr>"

definition example_broken_page :: page where
  "example_broken_page = example_page\<lparr>document := example_document\<lparr>query_container := None\<rparr>\<rparr>"

text \<open>
  A theme outside the palette, the example page after \<open>cacheElements\<close>, the example page
  with empty texts, and the Enter key on the button.
\<close>

definition example_theme :: theme where
  "example_theme = \<lparr>primary = js ''red'', secondary = js ''green'', accent = js ''blue''\<rparr>"

definition example_cached_page :: page where
  "example_cached_page = example_page\<lparr>elements := cached example_document\<rparr>"

definition example_empty_page :: page where
  "example_empty_page = example_page\<lparr>nodes := (\<lambda>n. (example_nodes n)\<lparr>textContent := []\<rparr>)\<rparr>"

definition example_enter :: key_event where
  "example_enter = \<lparr>prevents = True, defaultPrevented = False, key = js ''Enter'', target = Element (Doc 4)\<rparr>"

text \<open>
  The example page while the document is still loading, and the page that the module
  and then the event \<open>DOMContentLoaded\<close> make of it.
\<close>

definition example_loading_page :: page where
  "example_loading_page = example_page\<lparr>document := example_document\<lparr>loading := True\<rparr>\<rparr>"

definition example_ready_page :: page where
  "example_ready_page = exec DOMContentLoaded (main example_loading_page)"

section \<open>Basic facts\<close>

lemmas prims = update_node_def set_style_def set_cssText_def set_className_def classList_add_def
  classList_remove_def set_textContent_def setAttribute_def createElement_def remove_node_def
  appendChild_def schedule_def setTimeout_def setInterval_def requestAnimationFrame_def
  clearInterval_def addEventListener_def console_error_def Math_random_def

lemmas example_defs = example_page_def initial_page_def example_document_def example_nodes_def
  example_layout_def example_click_def example_escape_def example_broken_page_def

lemma length_THEMES: "length THEMES = 5"
  by (simp add: THEMES_def)

lemma js_rem_nonneg: "0 \<le> a \<Longrightarrow> js_rem a 5 = a mod 5"
  by (simp add: js_rem_def sgn_if)

lemma theme_at_Some: "0 \<le> i \<Longrightarrow> i < 5 \<Longrightarrow> \<exists>t. theme_at i = Some t"
  by (simp add: theme_at_def length_THEMES)

lemma applyTheme_Some_index:
  "\<exists>s'. applyTheme (Some t) s = Inr s' \<and> currentThemeIndex s' = currentThemeIndex s
      \<and> isAnimating s' = isAnimating s"
  by (simp add: applyTheme_def prims split: option.splits)

lemma cycleTheme_step:
  assumes "0 \<le> currentThemeIndex s" "currentThemeIndex s < 5"
  shows "\<exists>s'. cycleTheme s = Inr s' \<and> currentThemeIndex s' = (currentThemeIndex s + 1) mod 5"
proof -
  let ?i = "(currentThemeIndex s + 1) mod 5"
  have "0 \<le> ?i" "?i < 5" by simp_all
  then obtain t where t: "theme_at ?i = Some t" using theme_at_Some by blast
  show ?thesis using assms t applyTheme_Some_index[of t "s\<lparr>currentThemeIndex := ?i\<rparr>"]
    by (auto simp add: cycleTheme_def Let_def length_THEMES js_rem_nonneg)
qed

section \<open>Frame lemmas\<close>


lemma view_update_node:
  "(\<And>e. style (f e) = style e) \<Longrightarrow> theme_view (update_node n f s) = theme_view s"
  by (auto simp add: theme_view_def update_node_def color_vars_def fun_eq_iff)

lemma view_set_style:
  "p \<noteq> js ''--primary-color'' \<Longrightarrow> p \<noteq> js ''--secondary-color'' \<Longrightarrow> p \<noteq> js ''--accent-color''
   \<Longrightarrow> theme_view (set_style n p v s) = theme_view s"
  by (auto simp add: theme_view_def set_style_def update_node_def color_vars_def fun_eq_iff)

lemma view_set_cssText: "theme_view (set_cssText (New k) ds s) = theme_view s"
  by (auto simp add: theme_view_def set_cssText_def update_node_def color_vars_def fun_eq_iff)

lemma view_node_ops:
  "theme_view (set_className n c s) = theme_view s"
  "theme_view (classList_add n c s) = theme_view s"
  "theme_view (classList_remove n c s) = theme_view s"
  "theme_view (set_textContent n t s) = theme_view s"
  "theme_view (setAttribute n a v s) = theme_view s"
  "theme_view (remove_node n s) = theme_view s"
  "theme_view (appendChild n m s) = theme_view s"
  by (simp_all add: set_className_def classList_add_def classList_remove_def set_textContent_def
       setAttribute_def remove_node_def appendChild_def view_update_node split: option.splits)

lemma view_createElement:
  "createElement tag s = (n, s') \<Longrightarrow> theme_view s' = theme_view s \<and> n = New (created s)"
  by (auto simp add: theme_view_def createElement_def color_vars_def fun_eq_iff)

lemma view_env:
  "theme_view (schedule k cb s) = theme_view s"
  "theme_view (setTimeout cb d s) = theme_view s"
  "theme_view (setInterval cb d s) = theme_view s"
  "theme_view (requestAnimationFrame cb s) = theme_view s"
  "theme_view (clearInterval i s) = theme_view s"
  "theme_view (addEventListener tg ty h s) = theme_view s"
  "theme_view (console_error msg e s) = theme_view s"
  "theme_view (snd (Math_random s)) = theme_view s"
  "theme_view (s\<lparr>timers := tm\<rparr>) = theme_view s"
  "theme_view (s\<lparr>innerWidth := iw, innerHeight := ih\<rparr>) = theme_view s"
  by (simp_all add: theme_view_def schedule_def setTimeout_def setInterval_def
       requestAnimationFrame_def clearInterval_def addEventListener_def console_error_def
       Math_random_def color_vars_def fun_eq_iff split: option.splits timer_kind.splits)

lemmas view_simps = view_set_style view_set_cssText view_node_ops view_env

lemma view_Math_random: "Math_random s = (r, s') \<Longrightarrow> theme_view s' = theme_view s"
  using view_env(8)[of s] by simp

lemma view_setupEventListeners: "theme_view (setupEventListeners s) = theme_view s"
  by (simp add: setupEventListeners_def Let_def view_simps split: option.splits)

lemma view_initializeAnimations: "theme_view (initializeAnimations s) = theme_view s"
  by (simp add: initializeAnimations_def Let_def view_simps js_def split: option.splits)

lemma view_typewriterEffect: "theme_view (typewriterEffect el s) = theme_view s"
  by (simp add: typewriterEffect_def Let_def view_simps js_def split: option.splits)

lemma view_typewriterTick: "theme_view (typewriterTick i el text k s) = theme_view s"
  by (simp add: typewriterTick_def Let_def view_simps)

lemma view_animateElement: "theme_view (animateElement el c s) = theme_view s"
  by (simp add: animateElement_def Let_def view_simps js_def split: option.splits)

lemma view_animateFrame: "theme_view (animateFrame el c s) = theme_view s"
  by (simp add: animateFrame_def Let_def view_simps js_def)

lemma view_startColorCycle: "theme_view (startColorCycle s) = theme_view s"
  by (simp add: startColorCycle_def view_simps)

lemma view_createParticle: "theme_view (createParticle h s) = theme_view s"
  by (auto simp add: createParticle_def Let_def view_simps split: prod.splits
      dest!: view_createElement view_Math_random)

lemma view_createParticles: "theme_view ((createParticle h ^^ n) s) = theme_view s"
  by (induction n) (simp_all add: view_createParticle)

lemma view_createParticleSystem: "theme_view (createParticleSystem s) = theme_view s"
  by (simp add: createParticleSystem_def view_createParticles split: option.splits)

lemma view_repositionParticle: "theme_view (repositionParticle p s) = theme_view s"
  by (auto simp add: repositionParticle_def Let_def view_simps js_def split: prod.splits
      dest!: view_Math_random)

lemma view_fold_reposition: "theme_view (fold repositionParticle ps s) = theme_view s"
  by (induction ps arbitrary: s) (simp_all add: view_repositionParticle)

lemma view_handleResize: "theme_view (handleResize s) = theme_view s"
  by (simp add: handleResize_def updateParticles_def view_fold_reposition split: option.splits)

lemma view_createRippleEffect: "theme_view (createRippleEffect e s) = theme_view s"
  by (auto simp add: createRippleEffect_def Let_def view_simps split: prod.splits
      dest!: view_createElement)

lemma view_showNotification: "theme_view (state_of (showNotification m s)) = theme_view s"
  by (auto simp add: showNotification_def Let_def view_simps split: prod.splits option.splits
      dest!: view_createElement)

lemma view_notificationHide: "theme_view (notificationHide n s) = theme_view s"
  by (simp add: notificationHide_def view_simps)

lemma view_handleMouseMove: "theme_view (handleMouseMove e s) = theme_view s"
  by (simp add: handleMouseMove_def Let_def view_simps js_def split: option.splits)

lemma view_visibility: "theme_view (state_of (handleVisibilityChange s)) = theme_view s"
  by (simp add: handleVisibilityChange_def pauseAnimations_def resumeAnimations_def view_simps js_def
      split: option.splits)

lemma view_keyboardNavigation:
  "theme_view (state_of (keyboardNavigationOn e s)) = theme_view s"
  "theme_view (state_of (keyboardNavigationOff s)) = theme_view s"
  by (simp_all add: keyboardNavigationOn_def keyboardNavigationOff_def view_simps split: option.splits)

lemma view_setupAccessibility: "theme_view (setupAccessibility s) = theme_view s"
  by (simp add: setupAccessibility_def Let_def view_simps split: option.splits)

lemma view_containerFadeIn: "theme_view (state_of (containerFadeIn s)) = theme_view s"
  by (simp add: containerFadeIn_def view_simps js_def split: option.splits)


section \<open>Theme state of the handlers\<close>


lemma applyTheme_Some:
  "applyTheme (Some t) s = Inr (case body (elements s) of None \<Rightarrow> s | Some b \<Rightarrow> write_theme b t s)"
  by (simp add: applyTheme_def write_theme_def set_style_def update_node_def split: option.splits)

lemma view_write_theme:
  "theme_view (write_theme b t s) =
     (currentThemeIndex s, isAnimating s, elements s, document s, (color_vars s)(b := theme_vars t))"
  by (auto simp add: theme_view_def write_theme_def color_vars_def theme_vars_def fun_eq_iff js_def)

lemma view_applyTheme:
  "theme_view (state_of (applyTheme t s)) =
     (currentThemeIndex s, isAnimating s, elements s, document s,
      painted (body (elements s)) t (color_vars s))"
  by (cases t) (auto simp add: applyTheme_Some view_write_theme painted_def split: option.splits,
      auto simp add: applyTheme_def theme_view_def split: option.splits)

lemma color_vars_idx: "color_vars (s\<lparr>currentThemeIndex := i\<rparr>) = color_vars s"
  by (simp add: color_vars_def fun_eq_iff)

lemma view_cycleTheme:
  "theme_view (state_of (cycleTheme s)) =
     (js_rem (currentThemeIndex s + 1) 5, isAnimating s, elements s, document s,
      painted (body (elements s)) (theme_at (js_rem (currentThemeIndex s + 1) 5)) (color_vars s))"
  by (simp add: cycleTheme_def Let_def view_applyTheme length_THEMES color_vars_idx)

lemma view_uncaught: "theme_view (uncaught r) = theme_view (state_of r)"
  by (cases r) (auto simp add: uncaught_def view_simps)

lemma view_isAnimating: "theme_view (s\<lparr>isAnimating := a\<rparr>) =
   (currentThemeIndex s, a, elements s, document s, color_vars s)"
  by (simp add: theme_view_def color_vars_def fun_eq_iff)

lemma view_click:
  "theme_view (state_of (snd (handleInteractiveClick e s))) =
     (if isAnimating s then theme_view s
      else (case theme_view (state_of (cycleTheme s)) of (i, a, r) \<Rightarrow> (i, True, r)))"
proof (cases "isAnimating s")
  case True
  then show ?thesis by (simp add: handleInteractiveClick_def)
next
  case False
  let ?s3 = "setTimeout (ButtonScaleBack (currentTarget e)) 150
     (set_style (currentTarget e) (js ''transform'') (Text (js ''scale(0.95)'')) (s\<lparr>isAnimating := True\<rparr>))"
  have v3: "theme_view ?s3 = (currentThemeIndex s, True, elements s, document s, color_vars s)"
    by (simp add: view_simps js_def view_isAnimating)
  have f3: "currentThemeIndex ?s3 = currentThemeIndex s \<and> isAnimating ?s3 \<and>
      elements ?s3 = elements s \<and> document ?s3 = document s \<and> color_vars ?s3 = color_vars s"
    using v3 by (simp add: theme_view_def)
  have c3: "theme_view (state_of (cycleTheme ?s3)) =
      (case theme_view (state_of (cycleTheme s)) of (i, a, r) \<Rightarrow> (i, True, r))"
    by (simp add: view_cycleTheme f3)
  show ?thesis
  proof (cases "cycleTheme ?s3")
    case (Inl a)
    then show ?thesis using False c3 by (cases a) (simp add: handleInteractiveClick_def Let_def)
  next
    case (Inr s4)
    have "theme_view (state_of (showNotification theme_changed (createRippleEffect e s4))) = theme_view s4"
      by (simp add: view_showNotification view_createRippleEffect)
    then show ?thesis using False c3 Inr
      by (cases "showNotification theme_changed (createRippleEffect e s4)")
         (auto simp add: handleInteractiveClick_def Let_def view_simps)
  qed
qed

lemma view_keydown:
  "theme_view (state_of (snd (handleKeydown e s))) =
     (if key e = js '' '' \<or> key e = js ''Enter'' then
        (case interactiveBtn (elements s) of
           None \<Rightarrow> theme_view s
         | Some b \<Rightarrow> if target e = Element (Doc b)
             then theme_view (state_of (snd (handleInteractiveClick
                          \<lparr>prevents = False, defaultPrevented = False,
                           currentTarget = Doc b, clientX = None, clientY = None\<rparr> s)))
             else theme_view s)
      else if key e = js ''Escape'' then theme_view (state_of (applyTheme (theme_at 0) (s\<lparr>currentThemeIndex := 0\<rparr>)))
      else theme_view s)"
  by (simp add: handleKeydown_def Let_def split: option.splits)

lemma view_init:
  "theme_view (init s) = (currentThemeIndex s, isAnimating s, elements (init s), document s, color_vars s)"
proof -
  have c: "theme_view (state_of (cacheElements s)) =
      (currentThemeIndex s, isAnimating s, elements (state_of (cacheElements s)), document s, color_vars s)"
    by (simp add: cacheElements_def Let_def theme_view_def color_vars_def fun_eq_iff)
  show ?thesis
  proof (cases "cacheElements s")
    case (Inl a)
    then show ?thesis using c by (cases a) (auto simp add: init_def view_simps theme_view_def console_error_def color_vars_def fun_eq_iff)
  next
    case (Inr s')
    have "theme_view (init s) = theme_view s'" using Inr
      by (simp add: init_def view_setupAccessibility view_createParticleSystem view_startColorCycle
          view_initializeAnimations view_setupEventListeners)
    then show ?thesis using c Inr by (auto simp add: theme_view_def)
  qed
qed



lemma painted_None: "painted b None cv = cv" "painted None t cv = cv"
  by (simp_all add: painted_def split: option.splits)

lemma moves_same: "theme_view s' = theme_view s \<Longrightarrow> theme_moves st s s'"
  unfolding theme_moves_def theme_view_def
  by (metis painted_None(1))

lemma moves_same_but:
  "theme_view s' = (currentThemeIndex s, a, el, d, color_vars s) \<Longrightarrow> theme_moves st s s'"
  unfolding theme_moves_def
  by (metis painted_None(1))

lemma moves_cycle: "theme_view s' = (case theme_view (state_of (cycleTheme s)) of (i, a, r) \<Rightarrow> (i, a', r))
   \<Longrightarrow> theme_moves st s s'"
  unfolding theme_moves_def view_cycleTheme by auto

lemma moves_apply: "theme_view s' = theme_view (state_of (applyTheme (theme_at 0) (s\<lparr>currentThemeIndex := 0\<rparr>)))
   \<Longrightarrow> theme_moves st s s'"
  unfolding theme_moves_def view_applyTheme by (auto simp add: color_vars_idx)

lemma moves_click: "theme_moves st s (state_of (snd (handleInteractiveClick e s)))"
proof (cases "isAnimating s")
  case True
  then show ?thesis by (simp add: moves_same view_click)
next
  case False
  then show ?thesis by (intro moves_cycle[where a' = True]) (simp add: view_click)
qed

lemma moves_view_eq:
  "theme_moves st s s1 \<Longrightarrow> theme_view s2 = theme_view s1 \<Longrightarrow> theme_moves st s s2"
  by (simp add: theme_moves_def)

lemma moves_keydown: "theme_moves st s (state_of (snd (handleKeydown e s)))"
proof (cases "key e = js '' '' \<or> key e = js ''Enter''")
  case True
  show ?thesis
  proof (cases "interactiveBtn (elements s)")
    case None
    then show ?thesis using True by (intro moves_same) (simp add: view_keydown)
  next
    case (Some b)
    show ?thesis
    proof (cases "target e = Element (Doc b)")
      case True
      then show ?thesis using \<open>key e = js '' '' \<or> key e = js ''Enter''\<close> Some
        by (intro moves_view_eq[OF moves_click]) (simp add: view_keydown)
    next
      case False
      then show ?thesis using \<open>key e = js '' '' \<or> key e = js ''Enter''\<close> Some
        by (intro moves_same) (simp add: view_keydown)
    qed
  qed
next
  case False
  show ?thesis
  proof (cases "key e = js ''Escape''")
    case True
    then show ?thesis using False by (intro moves_apply) (simp add: view_keydown)
  next
    case no: False
    then show ?thesis using False by (intro moves_same) (simp add: view_keydown)
  qed
qed

lemma view_cycle_cong:
  "theme_view a = theme_view b \<Longrightarrow>
   theme_view (state_of (cycleTheme a)) = theme_view (state_of (cycleTheme b))"
  unfolding view_cycleTheme by (simp add: theme_view_def)

lemma moves_callback:
  assumes "theme_view s1 = theme_view s"
  shows "theme_moves st s (state_of (run_callback i cb s1))"
proof (cases cb)
  case AnimatingOff
  then show ?thesis using assms
    by (intro moves_same_but[where a = False and el = "elements s" and d = "document s"])
       (simp add: theme_view_def color_vars_def fun_eq_iff)
next
  case ColorCycleTick
  show ?thesis
  proof (cases "\<not> hidden (document s1) \<and> \<not> isAnimating s1")
    case True
    have "theme_view (state_of (run_callback i cb s1)) = theme_view (state_of (cycleTheme s))"
      using True ColorCycleTick view_cycle_cong[OF assms] by (simp add: colorCycleTick_def)
    then show ?thesis
      by (intro moves_cycle[where a' = "isAnimating s"]) (simp add: view_cycleTheme)
  next
    case False
    then show ?thesis using ColorCycleTick assms by (intro moves_same) (auto simp add: colorCycleTick_def)
  qed
qed (use assms in \<open>auto intro!: moves_same simp add: view_containerFadeIn view_typewriterEffect
      view_animateElement view_animateFrame view_typewriterTick view_simps js_def view_notificationHide\<close>)

lemma moves_fire: "theme_moves st s (state_of (fire i s))"
  by (auto simp add: fire_def view_simps moves_same intro!: moves_callback
      split: option.splits timer_kind.splits)

lemma moves_uncaught: "theme_moves st s (state_of r) \<Longrightarrow> theme_moves st s (uncaught r)"
  by (simp add: theme_moves_def view_uncaught)

lemma view_doc_update:
  "theme_view (s\<lparr>document := d\<rparr>) = (currentThemeIndex s, isAnimating s, elements s, d, color_vars s)"
  by (simp add: theme_view_def color_vars_def fun_eq_iff)



lemma moves_exec: "theme_moves st s (exec st s)"
proof (cases st)
  case DOMContentLoaded
  have a: "theme_moves st' s (s\<lparr>document := d\<rparr>)" for d st'
    by (rule moves_same_but) (simp add: view_doc_update)
  have b: "theme_moves st' s (init (s\<lparr>document := d\<rparr>))" for d st'
    by (rule moves_same_but) (simp add: view_init color_vars_def fun_eq_iff)
  show ?thesis unfolding DOMContentLoaded
    by (simp add: Let_def a b moves_same)
next
  case (Click e)
  then show ?thesis by (simp add: moves_uncaught moves_click moves_same)
next
  case (Keydown e)
  have 1: "theme_moves st s (uncaught (snd (handleKeydown e s)))"
    by (intro moves_uncaught moves_keydown)
  have 2: "theme_view (uncaught (keyboardNavigationOn e s1)) = theme_view s1" for s1
    by (simp add: view_uncaught view_keyboardNavigation)
  have 3: "theme_moves st' s s1 \<Longrightarrow> theme_moves st' s (uncaught (keyboardNavigationOn e s1))" for s1 st'
    by (rule moves_view_eq[OF _ 2])
  show ?thesis unfolding Keydown
    by (simp add: Let_def 3 1[unfolded Keydown] moves_same)
next
  case (Resize w h)
  then show ?thesis
    by (simp add: Let_def view_handleResize view_simps moves_same)
next
  case (MouseMove e)
  then show ?thesis by (simp add: view_handleMouseMove moves_same)
next
  case (VisibilityChange h)
  have a: "theme_moves st' s (s\<lparr>document := d\<rparr>)" for d st'
    by (rule moves_same_but) (simp add: view_doc_update)
  have b: "theme_moves st' s (uncaught (handleVisibilityChange (s\<lparr>document := d\<rparr>)))" for d st'
    by (rule moves_same_but) (simp add: view_uncaught view_visibility view_doc_update)
  show ?thesis unfolding VisibilityChange by (simp add: Let_def a b)
next
  case MouseDown
  then show ?thesis by (simp add: view_uncaught view_keyboardNavigation moves_same)
next
  case (Fire i)
  then show ?thesis by (simp add: moves_uncaught moves_fire)
next
  case ApiCycleTheme
  have "theme_moves st s (state_of (cycleTheme s))"
    by (rule moves_cycle[where a' = "isAnimating s"]) (simp add: view_cycleTheme)
  then show ?thesis unfolding ApiCycleTheme by (simp add: moves_uncaught)
next
  case (ApiShowNotification m)
  then show ?thesis by (simp add: moves_same view_uncaught view_showNotification)
next
  case (ApiApplyTheme t)
  have "theme_view (exec st s) =
      (currentThemeIndex s, isAnimating s, elements s, document s,
       painted (body (elements s)) t (color_vars s))"
    unfolding ApiApplyTheme by (simp add: view_uncaught view_applyTheme)
  then show ?thesis unfolding theme_moves_def using ApiApplyTheme by blast
qed

lemma quiet_steps: "\<not> calls_applyTheme st \<Longrightarrow> color_vars (exec st s) = color_vars s"
proof (cases st)
  case DOMContentLoaded
  have "color_vars (init (s\<lparr>document := d\<rparr>)) = color_vars s" for d
    using view_init[of "s\<lparr>document := d\<rparr>"] by (simp add: theme_view_def color_vars_def fun_eq_iff)
  moreover have "color_vars (s\<lparr>document := d\<rparr>) = color_vars s" for d
    by (simp add: color_vars_def fun_eq_iff)
  ultimately show ?thesis unfolding DOMContentLoaded by (simp add: Let_def)
next
  case (Resize w h)
  have "theme_view (exec st s) = theme_view s"
    unfolding Resize by (simp add: Let_def view_handleResize view_simps)
  then show ?thesis by (simp add: theme_view_def)
next
  case (MouseMove e)
  have "theme_view (exec st s) = theme_view s"
    unfolding MouseMove by (simp add: view_handleMouseMove)
  then show ?thesis by (simp add: theme_view_def)
next
  case (VisibilityChange h)
  have "theme_view (uncaught (handleVisibilityChange (s\<lparr>document := d\<rparr>))) =
      theme_view (s\<lparr>document := d\<rparr>)" for d
    by (simp add: view_uncaught view_visibility)
  then have "color_vars (uncaught (handleVisibilityChange (s\<lparr>document := d\<rparr>))) =
      color_vars (s\<lparr>document := d\<rparr>)" for d
    by (simp add: theme_view_def)
  moreover have "color_vars (s\<lparr>document := d\<rparr>) = color_vars s" for d
    by (simp add: color_vars_def fun_eq_iff)
  ultimately show ?thesis unfolding VisibilityChange by (simp add: Let_def)
next
  case MouseDown
  have "theme_view (exec st s) = theme_view s"
    unfolding MouseDown by (simp add: view_uncaught view_keyboardNavigation)
  then show ?thesis by (simp add: theme_view_def)
next
  case (ApiShowNotification m)
  have "theme_view (exec st s) = theme_view s"
    unfolding ApiShowNotification by (simp add: view_uncaught view_showNotification)
  then show ?thesis by (simp add: theme_view_def)
qed simp_all

lemma index_ok_step: "index_ok s \<Longrightarrow> index_ok (exec st s)"
proof -
  assume ok: "index_ok s"
  obtain i a el d t where v: "theme_view (exec st s) = (i, a, el, d, painted (body (elements s)) t (color_vars s))"
    and i: "i = currentThemeIndex s \<or> i = js_rem (currentThemeIndex s + 1) 5 \<or> i = 0"
    using moves_exec[of st s] unfolding theme_moves_def by blast
  have "currentThemeIndex (exec st s) = i" using v by (simp add: theme_view_def)
  moreover have "0 \<le> js_rem (currentThemeIndex s + 1) 5 \<and> js_rem (currentThemeIndex s + 1) 5 < 5"
    using ok by (simp add: index_ok_def js_rem_nonneg)
  ultimately show ?thesis using i ok by (auto simp add: index_ok_def length_THEMES)
qed

lemma index_ok_main: "index_ok (main (initial_page d ns w h lay rnd))"
proof -
  have "currentThemeIndex (main s) = currentThemeIndex s" for s
    using view_init[of "addEventListener Window (js ''error'') LogError s"]
    by (simp add: main_def Let_def theme_view_def addEventListener_def)
  then show ?thesis by (simp add: index_ok_def initial_page_def length_THEMES)
qed


section \<open>Initialisation facts\<close>


lemma theme_at_0: "theme_at 0 = Some (THEMES ! 0)"
  by (simp add: theme_at_def length_THEMES)

lemma console_prims:
  "console (update_node n f s) = console s"
  "console (set_style n p v s) = console s"
  "console (setAttribute n a u s) = console s"
  "console (set_cssText n ds s) = console s"
  "console (set_className n c s) = console s"
  "console (appendChild n m s) = console s"
  "console (schedule k cb s) = console s"
  "console (setTimeout cb d s) = console s"
  "console (setInterval cb d s) = console s"
  "console (requestAnimationFrame cb s) = console s"
  "console (addEventListener tg ty h s) = console s"
  "console (snd (createElement tag s)) = console s"
  "console (snd (Math_random s)) = console s"
  by (simp_all add: prims split: option.splits)

lemma console_createParticle: "console (createParticle h s) = console s"
proof -
  have 1: "createElement tag s = (n, s') \<Longrightarrow> console s' = console s" for tag s n s'
    using console_prims(12)[of tag s] by simp
  have 2: "Math_random s = (r, s') \<Longrightarrow> console s' = console s" for s r s'
    using console_prims(13)[of s] by simp
  show ?thesis
    by (auto simp add: createParticle_def Let_def console_prims split: prod.splits dest!: 1 2)
qed

lemma console_createParticles: "console ((createParticle h ^^ n) s) = console s"
  by (induction n) (simp_all add: console_createParticle)

lemma console_setup:
  "console (setupEventListeners s) = console s"
  "console (initializeAnimations s) = console s"
  "console (startColorCycle s) = console s"
  "console (createParticleSystem s) = console s"
  "console (setupAccessibility s) = console s"
  by (simp_all add: setupEventListeners_def initializeAnimations_def startColorCycle_def
      createParticleSystem_def setupAccessibility_def Let_def console_prims console_createParticles
      split: option.splits)

lemma listeners_prims:
  "listeners (update_node n f s) = listeners s"
  "listeners (set_style n p v s) = listeners s"
  "listeners (setAttribute n a u s) = listeners s"
  "listeners (set_cssText n ds s) = listeners s"
  "listeners (set_className n c s) = listeners s"
  "listeners (appendChild n m s) = listeners s"
  "listeners (schedule k cb s) = listeners s"
  "listeners (setTimeout cb d s) = listeners s"
  "listeners (setInterval cb d s) = listeners s"
  "listeners (requestAnimationFrame cb s) = listeners s"
  "listeners (addEventListener tg ty h s) = listeners s @ [(tg, ty, h)]"
  "listeners (snd (createElement tag s)) = listeners s"
  "listeners (snd (Math_random s)) = listeners s"
  by (simp_all add: prims split: option.splits)

lemma listeners_createParticle: "listeners (createParticle h s) = listeners s"
proof -
  have 1: "createElement tag s = (n, s') \<Longrightarrow> listeners s' = listeners s" for tag s n s'
    using listeners_prims(12)[of tag s] by simp
  have 2: "Math_random s = (r, s') \<Longrightarrow> listeners s' = listeners s" for s r s'
    using listeners_prims(13)[of s] by simp
  show ?thesis
    by (auto simp add: createParticle_def Let_def listeners_prims split: prod.splits dest!: 1 2)
qed

lemma listeners_createParticles: "listeners ((createParticle h ^^ n) s) = listeners s"
  by (induction n) (simp_all add: listeners_createParticle)

lemma listeners_setup:
  "listeners (initializeAnimations s) = listeners s"
  "listeners (startColorCycle s) = listeners s"
  "listeners (createParticleSystem s) = listeners s"
  by (simp_all add: initializeAnimations_def startColorCycle_def
      createParticleSystem_def Let_def listeners_prims listeners_createParticles
      split: option.splits)

lemma elements_setup:
  "elements (setupEventListeners s) = elements s"
  "elements (initializeAnimations s) = elements s"
  "elements (startColorCycle s) = elements s"
  "elements (createParticleSystem s) = elements s"
  using view_setupEventListeners[of s] view_initializeAnimations[of s] view_startColorCycle[of s]
    view_createParticleSystem[of s]
  by (simp_all add: theme_view_def)

lemma listeners_init_chain:
  "listeners (setupAccessibility (createParticleSystem (startColorCycle (initializeAnimations
      (setupEventListeners s))))) = listeners s @ registered_by_init (interactiveBtn (elements s))"
  by (simp add: setupAccessibility_def Let_def listeners_prims listeners_setup elements_setup
      setupEventListeners_def registered_by_init_def split: option.splits)


section \<open>Theme cycling\<close>

text \<open>
  C1. The palette has five themes, and \<open>N\<close> calls of \<open>cycleTheme\<close> from a state whose
  index is 0 all return and leave the index at \<open>N mod 5\<close>.
\<close>

theorem cycleTheme_n_times:
  assumes "currentThemeIndex s = 0"
  shows "length THEMES = 5 \<and> (\<exists>s'. cycles N s = Inr s' \<and> currentThemeIndex s' = int N mod 5)"
proof -
  have "\<exists>s'. cycles N s = Inr s' \<and> currentThemeIndex s' = int N mod 5"
  proof (induction N)
    case 0
    then show ?case using assms by simp
  next
    case (Suc N)
    then obtain s1 where s1: "cycles N s = Inr s1" "currentThemeIndex s1 = int N mod 5" by blast
    have "0 \<le> currentThemeIndex s1" "currentThemeIndex s1 < 5" using s1 by simp_all
    from cycleTheme_step[OF this] obtain s2 where
      s2: "cycleTheme s1 = Inr s2" "currentThemeIndex s2 = (currentThemeIndex s1 + 1) mod 5" by blast
    have "(int N mod 5 + 1) mod 5 = int (Suc N) mod 5" by (simp add: mod_simps add.commute)
    then show ?case using s1 s2 by simp
  qed
  then show ?thesis by (simp add: length_THEMES)
qed

theorem cycleTheme_n_times_witness:
  "currentThemeIndex example_page = 0 \<and> length THEMES = 5 \<and>
   (\<exists>s'. cycles 7 example_page = Inr s' \<and> currentThemeIndex s' = 2)"
  using cycleTheme_n_times[of example_page 7] by (simp add: example_defs)

text \<open>
  C6. In every state that the page reaches from the start of the module, by any
  sequence of events, timers and calls of the public interface, the index is at least 0
  and below the length of the palette; and every single step keeps it so.
\<close>

theorem index_always_in_palette:
  "length THEMES = 5 \<and>
   index_ok (run steps (main (initial_page d ns w h lay rnd))) \<and>
   (index_ok s \<longrightarrow> index_ok (exec st s))"
proof (intro conjI impI)
  show "length THEMES = 5" by (rule length_THEMES)
next
  have start: "index_ok (main (initial_page d ns w h lay rnd))"
    by (rule index_ok_main)
  have "index_ok s0 \<Longrightarrow> index_ok (fold exec steps s0)" for s0
  proof (induction steps arbitrary: s0)
    case Nil
    then show ?case by simp
  next
    case (Cons st' steps)
    from Cons.prems have "index_ok (exec st' s0)" by (rule index_ok_step)
    then have "index_ok (fold exec steps (exec st' s0))" by (rule Cons.IH)
    then show ?case by simp
  qed
  from this[OF start] show "index_ok (run steps (main (initial_page d ns w h lay rnd)))"
    by (simp add: run_def)
next
  assume "index_ok s"
  then show "index_ok (exec st s)" by (rule index_ok_step)
qed

theorem index_always_in_palette_witness:
  "index_ok example_page \<and> index_ok (exec ApiCycleTheme example_page) \<and>
   index_ok (run [ApiCycleTheme, Keydown example_escape, Fire 3] (main example_page))"
proof -
  have 0: "index_ok example_page"
    by (simp add: index_ok_def example_defs length_THEMES)
  note t = index_always_in_palette[of "[ApiCycleTheme, Keydown example_escape, Fire 3]"
      example_document example_nodes "Num 800" "Num 600" example_layout "\<lambda>n. 1 / 2"
      example_page ApiCycleTheme, folded example_page_def]
  from t 0 show ?thesis by blast
qed

section \<open>The action handler\<close>

text \<open>
  C4. While \<open>isAnimating\<close> is set, \<open>handleInteractiveClick\<close> returns the page as it is;
  the call of \<open>preventDefault\<close> on its event is all it does. A call on a page whose flag
  is clear sets the flag, whether or not a later statement of it throws, so a second
  call on the resulting page changes nothing, and the index and the colour variables
  after the two calls are those of one \<open>cycleTheme\<close>.
\<close>

theorem click_guard:
  "(isAnimating s \<longrightarrow> handleInteractiveClick e s = (preventDefault e, Inr s)) \<and>
   (\<not> isAnimating s \<longrightarrow>
      (let s1 = state_of (snd (handleInteractiveClick e s))
       in isAnimating s1 \<and>
          handleInteractiveClick e' s1 = (preventDefault e', Inr s1) \<and>
          currentThemeIndex s1 = js_rem (currentThemeIndex s + 1) 5 \<and>
          currentThemeIndex s1 = currentThemeIndex (state_of (cycleTheme s)) \<and>
          color_vars s1 = color_vars (state_of (cycleTheme s))))"
proof (intro conjI impI)
  assume "isAnimating s"
  then show "handleInteractiveClick e s = (preventDefault e, Inr s)"
    by (simp add: handleInteractiveClick_def)
next
  assume na: "\<not> isAnimating s"
  let ?s1 = "state_of (snd (handleInteractiveClick e s))"
  have v: "theme_view ?s1 = (case theme_view (state_of (cycleTheme s)) of (i, a, r) \<Rightarrow> (i, True, r))"
    using na by (simp add: view_click)
  have a: "isAnimating ?s1" using v by (simp add: theme_view_def)
  have i: "currentThemeIndex ?s1 = currentThemeIndex (state_of (cycleTheme s))"
    and c: "color_vars ?s1 = color_vars (state_of (cycleTheme s))"
    using v by (simp_all add: theme_view_def)
  have j: "currentThemeIndex (state_of (cycleTheme s)) = js_rem (currentThemeIndex s + 1) 5"
    using view_cycleTheme[of s] by (simp add: theme_view_def)
  have g: "handleInteractiveClick e' ?s1 = (preventDefault e', Inr ?s1)"
    using a by (simp add: handleInteractiveClick_def)
  show "let s1 = ?s1 in isAnimating s1 \<and>
          handleInteractiveClick e' s1 = (preventDefault e', Inr s1) \<and>
          currentThemeIndex s1 = js_rem (currentThemeIndex s + 1) 5 \<and>
          currentThemeIndex s1 = currentThemeIndex (state_of (cycleTheme s)) \<and>
          color_vars s1 = color_vars (state_of (cycleTheme s))"
    using a i c j g by (simp add: Let_def)
qed

theorem click_guard_witness:
  "isAnimating (example_page\<lparr>isAnimating := True\<rparr>) \<and>
   handleInteractiveClick example_click (example_page\<lparr>isAnimating := True\<rparr>) =
     (preventDefault example_click, Inr (example_page\<lparr>isAnimating := True\<rparr>)) \<and>
   \<not> isAnimating example_page \<and>
   isAnimating (state_of (snd (handleInteractiveClick example_click example_page))) \<and>
   currentThemeIndex (state_of (snd (handleInteractiveClick example_click example_page))) = 1"
proof -
  have a: "isAnimating (example_page\<lparr>isAnimating := True\<rparr>)" by simp
  have b: "\<not> isAnimating example_page" by (simp add: example_defs)
  have c: "js_rem (currentThemeIndex example_page + 1) 5 = 1"
    by (simp add: example_defs js_rem_def)
  note t1 = click_guard[of "example_page\<lparr>isAnimating := True\<rparr>" example_click example_click]
  note t2 = click_guard[of example_page example_click example_click]
  from t1 t2 a b c show ?thesis by (simp add: Let_def)
qed

section \<open>The reset key\<close>

text \<open>
  C5. On the Escape key \<open>handleKeydown\<close> returns without throwing, whatever the index,
  the flag and the rest of the page were: the index is 0 and the page is the one that
  \<open>applyTheme\<close> gives for the first theme of the palette.
\<close>

theorem escape_resets:
  assumes "key e = js ''Escape''"
  shows "\<exists>s'. handleKeydown e s = (e, Inr s') \<and> currentThemeIndex s' = 0 \<and>
           Inr s' = applyTheme (Some (THEMES ! 0)) (s\<lparr>currentThemeIndex := 0\<rparr>) \<and>
           s' = (case body (elements s) of
                   None \<Rightarrow> s\<lparr>currentThemeIndex := 0\<rparr>
                 | Some b \<Rightarrow> write_theme b (THEMES ! 0) (s\<lparr>currentThemeIndex := 0\<rparr>)) \<and>
           color_vars s' = painted (body (elements s)) (Some (THEMES ! 0)) (color_vars s)"
proof -
  have k: "key e \<noteq> js '' ''" "key e \<noteq> js ''Enter''" using assms by (simp_all add: js_def)
  let ?s0 = "s\<lparr>currentThemeIndex := 0\<rparr>"
  let ?s' = "case body (elements s) of None \<Rightarrow> ?s0 | Some b \<Rightarrow> write_theme b (THEMES ! 0) ?s0"
  have h: "handleKeydown e s = (e, applyTheme (Some (THEMES ! 0)) ?s0)"
    using assms k by (simp add: handleKeydown_def Let_def theme_at_0)
  have a: "applyTheme (Some (THEMES ! 0)) ?s0 = Inr ?s'"
    by (simp add: applyTheme_Some)
  have v: "theme_view (state_of (applyTheme (Some (THEMES ! 0)) ?s0)) =
      (0, isAnimating s, elements s, document s, painted (body (elements s)) (Some (THEMES ! 0)) (color_vars s))"
    by (simp add: view_applyTheme color_vars_idx)
  have "currentThemeIndex ?s' = 0" "color_vars ?s' = painted (body (elements s)) (Some (THEMES ! 0)) (color_vars s)"
    using v unfolding a by (simp_all add: theme_view_def)
  then show ?thesis using h a by simp
qed

theorem escape_resets_witness:
  "key example_escape = js ''Escape'' \<and>
   (\<exists>s'. handleKeydown example_escape (example_page\<lparr>currentThemeIndex := 3, isAnimating := True\<rparr>) =
            (example_escape, Inr s') \<and> currentThemeIndex s' = 0)"
proof -
  have k: "key example_escape = js ''Escape''" by (simp add: example_defs)
  from escape_resets[OF k, of "example_page\<lparr>currentThemeIndex := 3, isAnimating := True\<rparr>"] k
  show ?thesis by blast
qed

section \<open>Initialisation\<close>

text \<open>
  C8. \<open>cacheElements\<close> throws exactly when the container or the heading is not found.
  Then \<open>init\<close> catches the error and logs it: the cache is assigned and the console has
  one more entry, while the listeners, the timers and animation frames, and the nodes
  are as before. Otherwise nothing is logged and \<open>init\<close> runs the five set-up
  functions, which register the listeners.
\<close>

theorem init_fails_iff:
  "((\<exists>e s'. cacheElements s = Inl (e, s')) = essential_missing s) \<and>
   (essential_missing s \<longrightarrow>
      cacheElements s = Inl (Error (js ''Essential DOM elements not found''), s\<lparr>elements := cached (document s)\<rparr>) \<and>
      init s = s\<lparr>elements := cached (document s),
                 console := console s @ [(js ''Failed to initialize Hello Naz app:'',
                                          Error (js ''Essential DOM elements not found''))]\<rparr> \<and>
      listeners (init s) = listeners s \<and> timers (init s) = timers s \<and>
      next_timer (init s) = next_timer s \<and> nodes (init s) = nodes s \<and> created (init s) = created s) \<and>
   (\<not> essential_missing s \<longrightarrow>
      console (init s) = console s \<and>
      listeners (init s) = listeners s @ registered_by_init (query_interactive_btn (document s)) \<and>
      init s = setupAccessibility (createParticleSystem (startColorCycle (initializeAnimations
                 (setupEventListeners (s\<lparr>elements := cached (document s)\<rparr>))))))"
  by (auto simp add: cacheElements_def init_def Let_def essential_missing_def cached_def
      console_error_def console_setup listeners_init_chain)

theorem init_fails_iff_witness:
  "essential_missing example_broken_page \<and> listeners (init example_broken_page) = [] \<and>
   timers (init example_broken_page) = Map.empty \<and> created (init example_broken_page) = 0 \<and>
   \<not> essential_missing example_page \<and> console (init example_page) = []"
proof -
  have a: "essential_missing example_broken_page"
    by (simp add: essential_missing_def example_defs)
  have b: "\<not> essential_missing example_page"
    by (simp add: essential_missing_def example_defs)
  have c: "listeners example_broken_page = []" "timers example_broken_page = Map.empty"
    "created example_broken_page = 0" "console example_page = []"
    by (simp_all add: example_defs)
  from init_fails_iff[of example_broken_page] a
  have f: "listeners (init example_broken_page) = listeners example_broken_page \<and>
      timers (init example_broken_page) = timers example_broken_page \<and>
      created (init example_broken_page) = created example_broken_page"
    by blast
  from init_fails_iff[of example_page] b
  have g: "console (init example_page) = console example_page"
    by blast
  from f g a b c show ?thesis by simp
qed

section \<open>Applying a theme\<close>


lemma elements_init: "elements (init s) = cached (document s)"
proof (cases "essential_missing s")
  case True
  then show ?thesis
    by (simp add: init_def cacheElements_def Let_def essential_missing_def cached_def console_error_def)
next
  case False
  then have "init s = setupAccessibility (createParticleSystem (startColorCycle (initializeAnimations
                 (setupEventListeners (s\<lparr>elements := cached (document s)\<rparr>)))))"
    by (auto simp add: init_def cacheElements_def Let_def essential_missing_def cached_def)
  moreover have "elements (setupAccessibility x) = elements x" for x
    using view_setupAccessibility[of x] by (simp add: theme_view_def)
  ultimately show ?thesis by (simp add: elements_setup)
qed

lemma view_main:
  "theme_view (main s) = (currentThemeIndex s, isAnimating s, elements (main s), document s, color_vars s)"
  using view_init[of "addEventListener Window (js ''error'') LogError s"]
    view_env(6)[of Window "js ''error''" LogError s]
    view_env(6)[of Document "js ''DOMContentLoaded''" Init "addEventListener Window (js ''error'') LogError s"]
  by (auto simp add: main_def Let_def theme_view_def addEventListener_def)

lemma main_loading:
  "main example_loading_page =
     example_loading_page\<lparr>listeners := [(Window, js ''error'', LogError),
                                           (Document, js ''DOMContentLoaded'', Init)]\<rparr>"
  by (simp add: main_def Let_def addEventListener_def example_loading_page_def example_defs)

lemma ready_page:
  "body (elements example_ready_page) = Some 0 \<and> currentThemeIndex example_ready_page = 0 \<and>
   interactiveBtn (elements example_ready_page) = Some 4 \<and> \<not> isAnimating example_ready_page"
proof -
  let ?s1 = "(main example_loading_page)\<lparr>document := (document (main example_loading_page))\<lparr>loading := False\<rparr>\<rparr>"
  have r: "example_ready_page = init ?s1"
    unfolding example_ready_page_def main_loading
    by (simp add: Let_def registered_def example_loading_page_def example_defs)
  have d: "document ?s1 = example_document"
    unfolding main_loading by (simp add: example_loading_page_def example_defs)
  have i: "currentThemeIndex ?s1 = 0" "\<not> isAnimating ?s1"
    unfolding main_loading by (simp_all add: example_loading_page_def example_defs)
  have "currentThemeIndex (init ?s1) = currentThemeIndex ?s1" "isAnimating (init ?s1) = isAnimating ?s1"
    using view_init[of ?s1] by (simp_all add: theme_view_def)
  then show ?thesis unfolding r elements_init d using i by (simp add: cached_def example_document_def)
qed

lemma painted_cases:
  "painted b t cv n = cv n \<or> (\<exists>th. b = Some n \<and> t = Some th \<and> painted b t cv n = theme_vars th)"
  by (auto simp add: painted_def split: option.splits)

lemma color_vars_write_theme: "color_vars (write_theme b t s) b = theme_vars t"
  using view_write_theme[of b t s] by (simp add: theme_view_def)

lemma ready_apply:
  "theme_at (currentThemeIndex (exec (ApiApplyTheme (Some example_theme)) example_ready_page)) = Some (THEMES ! 0) \<and>
   color_vars (exec (ApiApplyTheme (Some example_theme)) example_ready_page) 0 = theme_vars example_theme \<and>
   theme_vars example_theme \<noteq> theme_vars (THEMES ! 0)"
proof -
  have x: "exec (ApiApplyTheme (Some example_theme)) example_ready_page =
      write_theme 0 example_theme example_ready_page"
    using ready_page by (simp add: applyTheme_Some uncaught_def)
  have i: "currentThemeIndex (write_theme 0 example_theme example_ready_page) = 0"
    using ready_page by (simp add: write_theme_def)
  have 4: "theme_vars example_theme \<noteq> theme_vars (THEMES ! 0)"
    by (simp add: theme_vars_def example_theme_def THEMES_def js_def)
  show ?thesis unfolding x i using theme_at_0 color_vars_write_theme 4 by simp
qed

text \<open>
  C9, with the guard of \<open>applyTheme\<close>. A call of \<open>applyTheme\<close> with a theme writes the
  three colour variables of the cached body with the three values of the theme, and
  nothing else; when no body is cached it writes nothing. The body of the module
  leaves the variables alone, and no step of the page changes the three variables of a
  document node in another way: after any step they are as before, or the step is one
  whose code calls \<open>applyTheme\<close> and they are, on the cached body, the colours of the
  palette entry at the new index or of the theme that a call of the public
  \<open>applyTheme\<close> passed.
\<close>

theorem applyTheme_only_writer:
  "applyTheme (Some t) s =
     Inr (case body (elements s) of None \<Rightarrow> s | Some b \<Rightarrow> write_theme b t s) \<and>
   color_vars (write_theme b t s) = (color_vars s)(b := theme_vars t) \<and>
   color_vars (main s) = color_vars s \<and>
   (color_vars (exec st s) n = color_vars s n \<or>
    (calls_applyTheme st \<and> body (elements s) = Some n \<and>
     (\<exists>th. color_vars (exec st s) n = theme_vars th \<and>
            (theme_at (currentThemeIndex (exec st s)) = Some th \<or> st = ApiApplyTheme (Some th)))))"
proof -
  obtain i a el d u where v: "theme_view (exec st s) = (i, a, el, d, painted (body (elements s)) u (color_vars s))"
    and u: "u = None \<or> u = theme_at i \<or> st = ApiApplyTheme u"
    using moves_exec[of st s] unfolding theme_moves_def by blast
  have c: "color_vars (exec st s) n = painted (body (elements s)) u (color_vars s) n"
    and i: "currentThemeIndex (exec st s) = i"
    using v by (simp_all add: theme_view_def)
  have 3: "color_vars (exec st s) n = color_vars s n \<or>
    (calls_applyTheme st \<and> body (elements s) = Some n \<and>
     (\<exists>th. color_vars (exec st s) n = theme_vars th \<and>
            (theme_at (currentThemeIndex (exec st s)) = Some th \<or> st = ApiApplyTheme (Some th))))"
  proof (cases "color_vars (exec st s) n = color_vars s n")
    case True
    then show ?thesis by simp
  next
    case False
    then have q: "calls_applyTheme st" using quiet_steps[of st s] by (cases "calls_applyTheme st") simp_all
    from False c obtain th where th: "body (elements s) = Some n" "u = Some th"
        "painted (body (elements s)) u (color_vars s) n = theme_vars th"
      using painted_cases[of "body (elements s)" u "color_vars s" n] by auto
    have "theme_at (currentThemeIndex (exec st s)) = Some th \<or> st = ApiApplyTheme (Some th)"
      using u th(2) i by auto
    then show ?thesis using th c q by auto
  qed
  have 2: "color_vars (write_theme b t s) = (color_vars s)(b := theme_vars t)"
    using view_write_theme[of b t s] by (simp add: theme_view_def)
  have 4: "color_vars (main s) = color_vars s"
    using view_main[of s] by (simp add: theme_view_def)
  show ?thesis using applyTheme_Some[of t s] 2 3 4 by blast
qed

theorem applyTheme_only_writer_witness:
  "applyTheme (Some example_theme) example_cached_page = Inr (write_theme 0 example_theme example_cached_page) \<and>
   color_vars (write_theme 0 example_theme example_cached_page) 0 = theme_vars example_theme"
proof -
  have b: "body (elements example_cached_page) = Some 0"
    by (simp add: example_cached_page_def cached_def example_defs)
  from applyTheme_only_writer[of example_theme example_cached_page 0 ApiCycleTheme 0] b
  show ?thesis by simp
qed

text \<open>
  C9 without that guard fails. While the document is loading the module has exposed
  its interface and \<open>elements\<close> is still empty: \<open>cycleTheme\<close> moves the index to 1 and
  applies the second theme, and the application writes nothing, so the variables of
  the body stay unset.
\<close>

theorem cycle_before_caching_counterexample:
  "cycleTheme (main example_loading_page) =
     applyTheme (Some (THEMES ! 1)) ((main example_loading_page)\<lparr>currentThemeIndex := 1\<rparr>) \<and>
   applyTheme (Some (THEMES ! 1)) ((main example_loading_page)\<lparr>currentThemeIndex := 1\<rparr>) =
     Inr ((main example_loading_page)\<lparr>currentThemeIndex := 1\<rparr>) \<and>
   doc_body (document (main example_loading_page)) = Some 0 \<and>
   color_vars ((main example_loading_page)\<lparr>currentThemeIndex := 1\<rparr>) 0 = (None, None, None)"
  unfolding main_loading
  by (simp add: cycleTheme_def applyTheme_def Let_def length_THEMES js_rem_def theme_at_def
      example_loading_page_def example_defs color_vars_def)

text \<open>
  C10, with the guard of \<open>applyTheme\<close>. The public \<open>applyTheme\<close> with a theme returns,
  leaves the index and the flag as they are, and writes the three colour variables
  when the body is cached (and nothing otherwise); \<open>cycleTheme\<close> then advances from the
  index as it was. On the example page, once it is ready, the colours after the call
  are not those of the palette entry at the index.
\<close>

theorem public_applyTheme_frame:
  "(\<exists>s'. applyTheme (Some t) s = Inr s' \<and> exec (ApiApplyTheme (Some t)) s = s' \<and>
      currentThemeIndex s' = currentThemeIndex s \<and> isAnimating s' = isAnimating s \<and>
      s' = (case body (elements s) of None \<Rightarrow> s | Some b \<Rightarrow> write_theme b t s) \<and>
      color_vars s' = painted (body (elements s)) (Some t) (color_vars s) \<and>
      currentThemeIndex (state_of (cycleTheme s')) = js_rem (currentThemeIndex s + 1) 5) \<and>
   body (elements example_ready_page) = Some 0 \<and>
   theme_at (currentThemeIndex (exec (ApiApplyTheme (Some example_theme)) example_ready_page)) = Some (THEMES ! 0) \<and>
   color_vars (exec (ApiApplyTheme (Some example_theme)) example_ready_page) 0 = theme_vars example_theme \<and>
   theme_vars example_theme \<noteq> theme_vars (THEMES ! 0)"
proof -
  let ?s' = "case body (elements s) of None \<Rightarrow> s | Some b \<Rightarrow> write_theme b t s"
  have a: "applyTheme (Some t) s = Inr ?s'" by (rule applyTheme_Some)
  have v: "theme_view ?s' = (currentThemeIndex s, isAnimating s, elements s, document s,
      painted (body (elements s)) (Some t) (color_vars s))"
    using view_applyTheme[of "Some t" s] unfolding a by simp
  have f: "currentThemeIndex ?s' = currentThemeIndex s" "isAnimating ?s' = isAnimating s"
    "color_vars ?s' = painted (body (elements s)) (Some t) (color_vars s)"
    using v by (simp_all add: theme_view_def)
  have c: "currentThemeIndex (state_of (cycleTheme ?s')) = js_rem (currentThemeIndex s + 1) 5"
    using view_cycleTheme[of ?s'] f(1) by (simp add: theme_view_def)
  have e: "exec (ApiApplyTheme (Some t)) s = ?s'"
    by (simp add: a uncaught_def)
  have 1: "\<exists>s'. applyTheme (Some t) s = Inr s' \<and> exec (ApiApplyTheme (Some t)) s = s' \<and>
      currentThemeIndex s' = currentThemeIndex s \<and> isAnimating s' = isAnimating s \<and>
      s' = (case body (elements s) of None \<Rightarrow> s | Some b \<Rightarrow> write_theme b t s) \<and>
      color_vars s' = painted (body (elements s)) (Some t) (color_vars s) \<and>
      currentThemeIndex (state_of (cycleTheme s')) = js_rem (currentThemeIndex s + 1) 5"
    using a e f c by blast
  show ?thesis using 1 ready_page ready_apply by blast
qed

theorem public_applyTheme_frame_witness:
  "body (elements example_cached_page) = Some 0 \<and>
   currentThemeIndex (exec (ApiApplyTheme (Some example_theme)) example_cached_page) =
     currentThemeIndex example_cached_page \<and>
   color_vars (exec (ApiApplyTheme (Some example_theme)) example_cached_page) 0 = theme_vars example_theme"
proof -
  have b: "body (elements example_cached_page) = Some 0"
    by (simp add: example_cached_page_def cached_def example_defs)
  from public_applyTheme_frame[of example_theme example_cached_page]
  obtain s' where s': "exec (ApiApplyTheme (Some example_theme)) example_cached_page = s'"
      "currentThemeIndex s' = currentThemeIndex example_cached_page"
      "color_vars s' = painted (body (elements example_cached_page)) (Some example_theme)
         (color_vars example_cached_page)"
    by blast
  have "color_vars s' 0 = theme_vars example_theme"
    unfolding s'(3) b by (simp add: painted_def)
  then show ?thesis using b s'(1,2) by simp
qed

text \<open>
  C10 without that guard fails in the same way: called while the document is loading,
  the public \<open>applyTheme\<close> writes no variable.
\<close>

theorem public_applyTheme_before_caching_counterexample:
  "exec (ApiApplyTheme (Some example_theme)) (main example_loading_page) = main example_loading_page \<and>
   doc_body (document (main example_loading_page)) = Some 0 \<and>
   color_vars (exec (ApiApplyTheme (Some example_theme)) (main example_loading_page)) 0 = (None, None, None)"
  unfolding main_loading
  by (simp add: applyTheme_def uncaught_def example_loading_page_def example_defs color_vars_def)

section \<open>The typewriter\<close>


lemma typewriterEffect_starts:
  "typing (next_timer s) el (textContent (nodes s el)) 0 (typewriterEffect (Some el) s) \<and>
   className (nodes (typewriterEffect (Some el) s) el) = className (nodes s el)"
  by (simp add: typing_def typewriterEffect_def Let_def prims)

lemma fire_tick:
  "timers s i = Some (Interval d, TypewriterTick el text k) \<Longrightarrow>
   exec (Fire i) s = typewriterTick i el text k s"
  by (simp add: fire_def uncaught_def)

lemma tick_middle:
  assumes "typing i el text k s" "Suc k < length text"
  shows "typing i el text (Suc k) (exec (Fire i) s) \<and>
         className (nodes (exec (Fire i) s) el) = className (nodes s el)"
proof -
  have f: "exec (Fire i) s = typewriterTick i el text k s"
    using assms(1) by (simp add: typing_def fire_tick del: exec.simps)
  have "take k text @ [text ! k] = take (Suc k) text"
    using assms(2) by (simp add: take_Suc_conv_app_nth)
  then show ?thesis using assms unfolding f
    by (simp add: typing_def typewriterTick_def Let_def text_at_def prims)
qed

lemma tick_last:
  assumes "typing i el text k s" "Suc k = length text"
  shows "timers (exec (Fire i) s) i = None \<and> textContent (nodes (exec (Fire i) s) el) = text \<and>
         typewriter_complete el (exec (Fire i) s)"
proof -
  have f: "exec (Fire i) s = typewriterTick i el text k s"
    using assms(1) by (simp add: typing_def fire_tick del: exec.simps)
  have "take k text @ [text ! k] = text"
    using assms(2) by (metis lessI order_refl take_Suc_conv_app_nth take_all)
  then show ?thesis using assms unfolding f
    by (simp add: typing_def typewriterTick_def Let_def text_at_def prims typewriter_complete_def)
qed

lemma fire_gone: "timers s i = None \<Longrightarrow> exec (Fire i) s = s"
  by (simp add: fire_def uncaught_def)

lemma ticks_before:
  assumes "typing i el text 0 s" "k < length text"
  shows "typing i el text k ((exec (Fire i) ^^ k) s) \<and>
         className (nodes ((exec (Fire i) ^^ k) s) el) = className (nodes s el)"
  using assms(2)
proof (induction k)
  case 0
  then show ?case using assms(1) by (simp del: exec.simps)
next
  case (Suc k)
  then have ih: "typing i el text k ((exec (Fire i) ^^ k) s)"
    "className (nodes ((exec (Fire i) ^^ k) s) el) = className (nodes s el)"
    by (simp_all del: exec.simps)
  from tick_middle[OF ih(1) Suc.prems] ih(2) show ?case by (simp del: exec.simps)
qed

lemma ticks_done:
  assumes "typing i el text 0 s" "text \<noteq> []"
  shows "timers ((exec (Fire i) ^^ length text) s) i = None \<and>
         textContent (nodes ((exec (Fire i) ^^ length text) s) el) = text \<and>
         typewriter_complete el ((exec (Fire i) ^^ length text) s)"
proof -
  obtain k where k: "length text = Suc k" using assms(2) by (cases "text") auto
  have "typing i el text k ((exec (Fire i) ^^ k) s)"
    using ticks_before[OF assms(1), of k] k by (simp del: exec.simps)
  from tick_last[OF this k[symmetric]] show ?thesis by (simp add: k del: exec.simps)
qed

lemma ticks_after:
  assumes "timers s i = None"
  shows "(exec (Fire i) ^^ m) s = s"
  by (induction m) (simp_all add: assms fire_gone del: exec.simps)

text \<open>
  For a text that is not empty: after \<open>k\<close> runs of the interval the node shows the first
  \<open>k\<close> code units; the last run clears the interval and adds the marker, and later
  firings of the timer find nothing to run.
\<close>

lemma typewriter_reveals:
  assumes "textContent (nodes s el) = text" "text \<noteq> []"
  defines "run_ticks \<equiv> \<lambda>k. (exec (Fire (next_timer s)) ^^ k) (typewriterEffect (Some el) s)"
  shows "k < length text \<Longrightarrow> textContent (nodes (run_ticks k) el) = take k text"
    and "k < length text \<Longrightarrow> timers (run_ticks k) (next_timer s) \<noteq> None"
    and "k < length text \<Longrightarrow> typewriter_complete el (run_ticks k) = typewriter_complete el s"
    and "textContent (nodes (run_ticks (length text)) el) = text"
    and "typewriter_complete el (run_ticks (length text))"
    and "run_ticks (length text + m) = run_ticks (length text)"
proof -
  let ?s0 = "typewriterEffect (Some el) s"
  let ?i = "next_timer s"
  have t0: "typing ?i el text 0 ?s0" and c0: "className (nodes ?s0 el) = className (nodes s el)"
    using typewriterEffect_starts[of s el] assms(1) by simp_all
  {
    assume "k < length text"
    from ticks_before[OF t0 this]
    show "textContent (nodes (run_ticks k) el) = take k text"
      and "timers (run_ticks k) (next_timer s) \<noteq> None"
      and "typewriter_complete el (run_ticks k) = typewriter_complete el s"
      using c0 by (simp_all add: run_ticks_def typing_def typewriter_complete_def del: exec.simps)
  }
  from ticks_done[OF t0 assms(2)]
  show "textContent (nodes (run_ticks (length text)) el) = text"
    and "typewriter_complete el (run_ticks (length text))"
    by (simp_all add: run_ticks_def del: exec.simps)
  have "timers (run_ticks (length text)) ?i = None"
    using ticks_done[OF t0 assms(2)] by (simp add: run_ticks_def del: exec.simps)
  from ticks_after[OF this, of m]
  show "run_ticks (length text + m) = run_ticks (length text)"
    by (simp add: run_ticks_def funpow_add add.commute del: exec.simps)
qed

text \<open>
  C2, at a heading whose text is empty, where the code departs from it. The interval is
  registered and its first run appends \<open>text[0]\<close>, which is \<open>undefined\<close>: there is one
  step although the length is 0, the node then reads \<open>undefined\<close> and not the empty
  text, and the marker is set after that step.
\<close>

theorem typewriter_empty_title:
  assumes "textContent (nodes s el) = []"
  shows "timers (typewriterEffect (Some el) s) (next_timer s) =
           Some (Interval typewriterSpeed, TypewriterTick el [] 0) \<and>
         textContent (nodes (typewriterEffect (Some el) s) el) = [] \<and>
         textContent (nodes (exec (Fire (next_timer s)) (typewriterEffect (Some el) s)) el) = js ''undefined'' \<and>
         timers (exec (Fire (next_timer s)) (typewriterEffect (Some el) s)) (next_timer s) = None \<and>
         typewriter_complete el (exec (Fire (next_timer s)) (typewriterEffect (Some el) s))"
proof -
  let ?s0 = "typewriterEffect (Some el) s"
  have t: "typing (next_timer s) el [] 0 ?s0"
    using typewriterEffect_starts[of s el] assms by simp
  then have f: "exec (Fire (next_timer s)) ?s0 = typewriterTick (next_timer s) el [] 0 ?s0"
    by (simp add: typing_def fire_tick del: exec.simps)
  show ?thesis using t unfolding f
    by (simp add: typing_def typewriterTick_def Let_def text_at_def prims typewriter_complete_def)
qed

theorem typewriter_empty_title_witness:
  "textContent (nodes example_empty_page (Doc 2)) = [] \<and>
   textContent (nodes (exec (Fire 0) (typewriterEffect (Some (Doc 2)) example_empty_page)) (Doc 2)) = js ''undefined'' \<and>
   js ''undefined'' \<noteq> []"
proof -
  have a: "textContent (nodes example_empty_page (Doc 2)) = []"
    by (simp add: example_empty_page_def example_defs)
  have n: "next_timer example_empty_page = 0"
    by (simp add: example_empty_page_def example_defs)
  from typewriter_empty_title[OF a] a n show ?thesis by (simp add: js_def del: exec.simps)
qed

section \<open>The ripple\<close>


lemma js_sub_NaN: "js_sub (js_sub NaN a) b = NaN"
  by (simp add: js_sub_def)

lemma ripple_without_pointer:
  assumes "clientX ev = None" "clientY ev = None"
  shows "style (nodes (createRippleEffect ev s) (New (created s))) (js ''left'') = None \<and>
         style (nodes (createRippleEffect ev s) (New (created s))) (js ''top'') = None"
  using assms
  by (simp add: createRippleEffect_def Let_def prims js_sub_NaN js_def)

lemma ripple_at_pointer:
  assumes "clientX ev = Some (Num x)" "clientY ev = Some (Num y)"
    and "layout s (currentTarget ev) =
           \<lparr>rect_left = Num l, rect_top = Num t, rect_width = Num w, rect_height = Num h\<rparr>"
  shows "style (nodes (createRippleEffect ev s) (New (created s))) (js ''left'') =
           Some (Px (Num (x - l - max w h / 2))) \<and>
         style (nodes (createRippleEffect ev s) (New (created s))) (js ''top'') =
           Some (Px (Num (y - t - max w h / 2)))"
  using assms
  by (simp add: createRippleEffect_def Let_def prims js_sub_def js_def)

lemma ripple_size:
  assumes "layout s (currentTarget ev) =
           \<lparr>rect_left = Num l, rect_top = Num t, rect_width = Num w, rect_height = Num h\<rparr>"
    and "0 \<le> w" "0 \<le> h"
  shows "style (nodes (createRippleEffect ev s) (New (created s))) (js ''width'') =
           Some (Px (Num (max w h))) \<and>
         style (nodes (createRippleEffect ev s) (New (created s))) (js ''height'') =
           Some (Px (Num (max w h)))"
  using assms
  by (simp add: createRippleEffect_def Let_def prims js_def)

lemma ripple_node:
  "className (nodes (createRippleEffect ev s) (New (created s))) = [js ''ripple''] \<and>
   parent (nodes (createRippleEffect ev s) (New (created s))) = Some (currentTarget ev) \<and>
   created (createRippleEffect ev s) = Suc (created s)"
  by (simp add: createRippleEffect_def Let_def prims)

lemma ripple_style_cong:
  "created a = created b \<Longrightarrow> layout a = layout b \<Longrightarrow>
   style (nodes (createRippleEffect ev a) (New (created a))) =
   style (nodes (createRippleEffect ev b) (New (created b)))"
  by (simp add: createRippleEffect_def Let_def prims)

lemma showNotification_keeps_node:
  "k < created s \<Longrightarrow>
   style (nodes (state_of (showNotification m s)) (New k)) = style (nodes s (New k)) \<and>
   className (nodes (state_of (showNotification m s)) (New k)) = className (nodes s (New k)) \<and>
   parent (nodes (state_of (showNotification m s)) (New k)) = parent (nodes s (New k))"
  by (simp add: showNotification_def Let_def prims split: option.splits)

lemma keydown_is_click:
  assumes "key e = js '' '' \<or> key e = js ''Enter''" "interactiveBtn (elements s) = Some b"
    "target e = Element (Doc b)"
  shows "handleKeydown e s = (preventDefault e, snd (handleInteractiveClick (synthetic_click b) s))"
  using assms by (auto simp add: handleKeydown_def synthetic_click_def)

lemma cycleTheme_ok:
  assumes "index_ok s"
  shows "\<exists>s'. cycleTheme s = Inr s' \<and> created s' = created s \<and> layout s' = layout s"
proof -
  let ?i = "js_rem (currentThemeIndex s + 1) 5"
  have "0 \<le> ?i \<and> ?i < 5" using assms by (simp add: index_ok_def js_rem_nonneg)
  then obtain t where "theme_at ?i = Some t" using theme_at_Some by blast
  then show ?thesis
    by (simp add: cycleTheme_def Let_def length_THEMES applyTheme_def prims split: option.splits)
qed

text \<open>
  The ripple that a call of the click handler leaves in the page is the node that
  \<open>createRippleEffect\<close> makes for the event and the layout of the page.
\<close>

lemma click_ripple:
  assumes "\<not> isAnimating s" and "index_ok s"
  shows "style (nodes (state_of (snd (handleInteractiveClick ev s))) (New (created s))) =
           style (nodes (createRippleEffect ev s) (New (created s))) \<and>
         className (nodes (state_of (snd (handleInteractiveClick ev s))) (New (created s))) =
           [js ''ripple''] \<and>
         parent (nodes (state_of (snd (handleInteractiveClick ev s))) (New (created s))) =
           Some (currentTarget ev)"
proof -
  let ?s3 = "setTimeout (ButtonScaleBack (currentTarget ev)) 150
     (set_style (currentTarget ev) (js ''transform'') (Text (js ''scale(0.95)''))
        (s\<lparr>isAnimating := True\<rparr>))"
  have ok3: "index_ok ?s3" using assms(2) by (simp add: index_ok_def prims)
  have cr3: "created ?s3 = created s" "layout ?s3 = layout s" by (simp_all add: prims)
  obtain s4 where s4: "cycleTheme ?s3 = Inr s4" "created s4 = created ?s3" "layout s4 = layout ?s3"
    using cycleTheme_ok[OF ok3] by blast
  have c4: "created s4 = created s" "layout s4 = layout s" using s4 cr3 by simp_all
  let ?s5 = "createRippleEffect ev s4"
  note r = ripple_node[of ev s4]
  have lt: "created s4 < created ?s5" using r by simp
  note n = showNotification_keeps_node[OF lt, of theme_changed]
  let ?s6 = "state_of (showNotification theme_changed ?s5)"
  have fin: "state_of (snd (handleInteractiveClick ev s)) =
     (case showNotification theme_changed ?s5 of
        Inl (err, s') \<Rightarrow> s'
      | Inr s' \<Rightarrow> setTimeout AnimatingOff animationDuration s')"
    using assms(1) s4(1)
    by (simp add: handleInteractiveClick_def Let_def split: sum.splits prod.splits)
  have keep: "nodes (state_of (snd (handleInteractiveClick ev s))) = nodes ?s6"
    unfolding fin by (simp add: prims split: sum.splits prod.splits)
  have st: "style (nodes ?s5 (New (created s4))) = style (nodes (createRippleEffect ev s) (New (created s)))"
    by (rule ripple_style_cong[OF c4])
  show ?thesis using keep n r st c4(1) by simp
qed

text \<open>
  C3. A call of the click handler on a page whose flag is clear leaves a ripple in the
  button. For a click of the mouse, with the pointer at \<open>(x, y)\<close> and the button at
  \<open>(l, t)\<close> with a width \<open>w\<close> and a height \<open>h\<close>, the ripple is a square of side
  \<open>max w h\<close> whose offsets put its centre at \<open>(x - l, y - t)\<close>, the pointer relative to
  the button. For the Space or Enter key on the button, the event that \<open>handleKeydown\<close>
  builds has no pointer coordinates: the offsets computed are \<open>NaN\<close>, the declarations
  \<open>left: NaNpx\<close> and \<open>top: NaNpx\<close> are dropped, and the style of the ripple has neither
  \<open>left\<close> nor \<open>top\<close>, so its position is the one the stylesheet gives by default.
\<close>

theorem ripple_position:
  assumes "\<not> isAnimating s" and "index_ok s"
  shows "(clientX ev = Some (Num x) \<and> clientY ev = Some (Num y) \<and>
          layout s (currentTarget ev) =
            \<lparr>rect_left = Num l, rect_top = Num t, rect_width = Num w, rect_height = Num h\<rparr> \<and>
          0 \<le> w \<and> 0 \<le> h \<longrightarrow>
          (let ripple = nodes (state_of (snd (handleInteractiveClick ev s))) (New (created s))
           in style ripple (js ''left'') = Some (Px (Num (x - l - max w h / 2))) \<and>
              style ripple (js ''top'') = Some (Px (Num (y - t - max w h / 2))) \<and>
              style ripple (js ''width'') = Some (Px (Num (max w h))) \<and>
              style ripple (js ''height'') = Some (Px (Num (max w h))) \<and>
              className ripple = [js ''ripple''] \<and> parent ripple = Some (currentTarget ev))) \<and>
         ((key e = js '' '' \<or> key e = js ''Enter'') \<and> interactiveBtn (elements s) = Some b \<and>
          target e = Element (Doc b) \<longrightarrow>
          (let ripple = nodes (state_of (snd (handleKeydown e s))) (New (created s))
           in style ripple (js ''left'') = None \<and> style ripple (js ''top'') = None \<and>
              className ripple = [js ''ripple''] \<and> parent ripple = Some (Doc b)))"
proof (intro conjI impI)
  assume m: "clientX ev = Some (Num x) \<and> clientY ev = Some (Num y) \<and>
          layout s (currentTarget ev) =
            \<lparr>rect_left = Num l, rect_top = Num t, rect_width = Num w, rect_height = Num h\<rparr> \<and>
          0 \<le> w \<and> 0 \<le> h"
  note c = click_ripple[OF assms, of ev]
  from m have p: "style (nodes (createRippleEffect ev s) (New (created s))) (js ''left'') =
           Some (Px (Num (x - l - max w h / 2))) \<and>
         style (nodes (createRippleEffect ev s) (New (created s))) (js ''top'') =
           Some (Px (Num (y - t - max w h / 2)))"
    by (intro ripple_at_pointer) simp_all
  from m have z: "style (nodes (createRippleEffect ev s) (New (created s))) (js ''width'') =
           Some (Px (Num (max w h))) \<and>
         style (nodes (createRippleEffect ev s) (New (created s))) (js ''height'') =
           Some (Px (Num (max w h)))"
    by (intro ripple_size) simp_all
  show "let ripple = nodes (state_of (snd (handleInteractiveClick ev s))) (New (created s))
           in style ripple (js ''left'') = Some (Px (Num (x - l - max w h / 2))) \<and>
              style ripple (js ''top'') = Some (Px (Num (y - t - max w h / 2))) \<and>
              style ripple (js ''width'') = Some (Px (Num (max w h))) \<and>
              style ripple (js ''height'') = Some (Px (Num (max w h))) \<and>
              className ripple = [js ''ripple''] \<and> parent ripple = Some (currentTarget ev)"
    using c p z by (simp add: Let_def)
next
  assume k: "(key e = js '' '' \<or> key e = js ''Enter'') \<and> interactiveBtn (elements s) = Some b \<and>
          target e = Element (Doc b)"
  let ?ev = "synthetic_click b"
  have ev: "clientX ?ev = None" "clientY ?ev = None" "currentTarget ?ev = Doc b"
    by (simp_all add: synthetic_click_def)
  note c = click_ripple[OF assms, of ?ev]
  note r = ripple_without_pointer[OF ev(1,2), of s]
  have h: "handleKeydown e s = (preventDefault e, snd (handleInteractiveClick ?ev s))"
    using k by (intro keydown_is_click) simp_all
  show "let ripple = nodes (state_of (snd (handleKeydown e s))) (New (created s))
           in style ripple (js ''left'') = None \<and> style ripple (js ''top'') = None \<and>
              className ripple = [js ''ripple''] \<and> parent ripple = Some (Doc b)"
    using c r ev(3) unfolding h by (simp add: Let_def)
qed

theorem ripple_position_witness:
  "\<not> isAnimating example_cached_page \<and> index_ok example_cached_page \<and>
   clientX example_click = Some (Num 120) \<and> clientY example_click = Some (Num 60) \<and>
   layout example_cached_page (currentTarget example_click) =
     \<lparr>rect_left = Num 100, rect_top = Num 50, rect_width = Num 80, rect_height = Num 40\<rparr> \<and>
   style (nodes (state_of (snd (handleInteractiveClick example_click example_cached_page)))
            (New (created example_cached_page))) (js ''left'') = Some (Px (Num (- 20))) \<and>
   style (nodes (state_of (snd (handleInteractiveClick example_click example_cached_page)))
            (New (created example_cached_page))) (js ''top'') = Some (Px (Num (- 30))) \<and>
   (key example_enter = js '' '' \<or> key example_enter = js ''Enter'') \<and>
   interactiveBtn (elements example_cached_page) = Some 4 \<and>
   target example_enter = Element (Doc 4) \<and>
   style (nodes (state_of (snd (handleKeydown example_enter example_cached_page)))
            (New (created example_cached_page))) (js ''left'') = None \<and>
   style (nodes (state_of (snd (handleKeydown example_enter example_cached_page)))
            (New (created example_cached_page))) (js ''top'') = None"
proof -
  have a: "\<not> isAnimating example_cached_page" "index_ok example_cached_page"
    by (simp_all add: example_cached_page_def example_defs index_ok_def length_THEMES)
  have m: "clientX example_click = Some (Num 120)" "clientY example_click = Some (Num 60)"
    "layout example_cached_page (currentTarget example_click) =
     \<lparr>rect_left = Num 100, rect_top = Num 50, rect_width = Num 80, rect_height = Num 40\<rparr>"
    by (simp_all add: example_cached_page_def example_defs)
  have k: "key example_enter = js '' '' \<or> key example_enter = js ''Enter''"
    "interactiveBtn (elements example_cached_page) = Some 4"
    "target example_enter = Element (Doc 4)"
    by (simp_all add: example_enter_def example_cached_page_def cached_def example_defs)
  have n: "(0::real) \<le> 80" "(0::real) \<le> 40" by simp_all
  have ar: "(120::real) - 100 - max 80 40 / 2 = - 20" "(60::real) - 50 - max 80 40 / 2 = - 30"
    by simp_all
  note t = ripple_position[OF a, of example_click 120 60 100 50 80 40 example_enter 4,
      unfolded Let_def ar]
  from t a m k n show ?thesis by blast
qed

section \<open>Debouncing\<close>


lemma advance_quiet: "pending d = [] \<Longrightarrow> advance t d = d\<lparr>now := max (now d) t\<rparr>"
  by (simp add: advance_def due_at_def)

lemma armed_first:
  assumes "pending d = []" "now d \<le> t"
  shows "armed wait t a (calls d) (executedFunction wait a (advance t d))"
  using assms
  by (simp add: advance_quiet executedFunction_def clearTimeout_def Let_def armed_def max_def)

lemma advance_early:
  assumes "armed wait t a c d" "t \<le> u" "u < t + wait"
  shows "advance u d = d\<lparr>now := u\<rparr>"
  using assms by (auto simp add: armed_def advance_def due_at_def max_def)

lemma armed_next:
  assumes "armed wait t a c d" "t \<le> u" "u < t + wait"
  shows "armed wait u b c (executedFunction wait b (advance u d))"
  using assms(1) unfolding advance_early[OF assms]
  by (auto simp add: armed_def executedFunction_def clearTimeout_def Let_def)

lemma armed_burst:
  assumes "armed wait t a c d" "in_window wait (t # map fst cs)"
  shows "armed wait (last (t # map fst cs)) (last (a # map snd cs)) c (burst wait cs d)"
  using assms
proof (induction cs arbitrary: t a d)
  case Nil
  then show ?case by simp
next
  case (Cons x cs)
  obtain u b where x: "x = (u, b)" by (cases x)
  from Cons.prems(2) have w: "t \<le> u" "u < t + wait" "in_window wait (u # map fst cs)"
    by (simp_all add: x)
  have "armed wait u b c (executedFunction wait b (advance u d))"
    by (rule armed_next[OF Cons.prems(1) w(1,2)])
  from Cons.IH[OF this w(3)] show ?case by (simp add: x)
qed

lemma armed_fires:
  assumes "armed wait t a c d" "t + wait \<le> T"
  shows "calls (advance T d) = c @ [a] \<and> pending (advance T d) = []"
  using assms
  by (auto simp add: armed_def advance_def due_at_def run_timer_def later_def clearTimeout_def Let_def)

lemma armed_pending: "armed wait t a c d \<Longrightarrow> calls d = c \<and> map (\<lambda>(j, due, b). b) (pending d) = [a]"
  by (auto simp add: armed_def)

text \<open>A call that arrives after the delay has ended starts a burst of its own.\<close>

lemma debounce_two_bursts:
  "calls (advance 1000 (burst 250 [(0, 1), (300, 2 :: nat)] debounce)) = [1, 2]"
  by (simp add: debounce_def advance_def due_at_def run_timer_def later_def clearTimeout_def
      executedFunction_def Let_def)

text \<open>
  C7. Take a debounced function with no timer pending and a burst of calls, each
  arriving no earlier than the one before it and before the delay set by that one has
  ended. During the burst \<open>func\<close> is not called and one timer is left pending, with the
  arguments of the last call. Once the delay after the last call has ended, \<open>func\<close> has
  been called exactly once more, with those arguments, and no timer is pending.
\<close>

theorem debounce_burst:
  assumes "pending d = []" and "cs \<noteq> []" and "now d \<le> fst (hd cs)"
    and "in_window wait (map fst cs)" and "fst (last cs) + wait \<le> T"
  shows "calls (burst wait cs d) = calls d \<and>
         map (\<lambda>(j, due, b). b) (pending (burst wait cs d)) = [snd (last cs)] \<and>
         calls (advance T (burst wait cs d)) = calls d @ [snd (last cs)] \<and>
         pending (advance T (burst wait cs d)) = []"
proof -
  obtain t a cs' where cs: "cs = (t, a) # cs'" using assms(2) by (cases cs) auto
  have 1: "armed wait t a (calls d) (executedFunction wait a (advance t d))"
    using assms(1,3) by (intro armed_first) (simp_all add: cs)
  have 2: "in_window wait (t # map fst cs')" using assms(4) by (simp add: cs)
  have l: "last (t # map fst cs') = fst (last cs)" "last (a # map snd cs') = snd (last cs)"
    by (simp_all add: cs last_map)
  have 3: "armed wait (fst (last cs)) (snd (last cs)) (calls d) (burst wait cs d)"
    using armed_burst[OF 1 2] unfolding l by (simp add: cs)
  show ?thesis using armed_pending[OF 3] armed_fires[OF 3 assms(5)] by simp
qed

theorem debounce_burst_witness:
  "pending (debounce :: nat debouncer) = [] \<and> [(0, 1), (100, 2), (300, 3 :: nat)] \<noteq> [] \<and>
   now (debounce :: nat debouncer) \<le> fst (hd [(0, 1), (100, 2), (300, 3 :: nat)]) \<and>
   in_window 250 (map fst [(0, 1), (100, 2), (300, 3 :: nat)]) \<and>
   fst (last [(0, 1), (100, 2), (300, 3 :: nat)]) + 250 \<le> (550 :: nat) \<and>
   calls (burst 250 [(0, 1), (100, 2), (300, 3 :: nat)] debounce) = [] \<and>
   calls (advance 550 (burst 250 [(0, 1), (100, 2), (300, 3 :: nat)] debounce)) = [3] \<and>
   pending (advance 550 (burst 250 [(0, 1), (100, 2), (300, 3 :: nat)] debounce)) = []"
proof -
  have h: "pending (debounce :: nat debouncer) = []" "[(0, 1), (100, 2), (300, 3 :: nat)] \<noteq> []"
    "now (debounce :: nat debouncer) \<le> fst (hd [(0, 1), (100, 2), (300, 3 :: nat)])"
    "in_window 250 (map fst [(0, 1), (100, 2), (300, 3 :: nat)])"
    "fst (last [(0, 1), (100, 2), (300, 3 :: nat)]) + 250 \<le> (550 :: nat)"
    by (simp_all add: debounce_def)
  from debounce_burst[OF h] h show ?thesis by (simp add: debounce_def)
qed

end
